theory Spec2Isabelle
  imports Main
begin

section \<open>Repair-request service: the handlers of main.py over an explicit database state\<close>

text \<open>
  The service keeps its state in two tables, \<open>users\<close> and \<open>repair_requests\<close>. Each route
  handler opens a session, performs one query or one insert/update followed by
  \<open>commit\<close> and \<open>refresh\<close>, and returns. The model passes the database explicitly: a
  handler takes the database and returns its result together with the database after
  the call. An exception is a value of type \<open>error\<close>; a handler that raises before or at
  \<open>commit\<close> leaves the database as it was.

  Python \<open>str\<close> values are \<open>string\<close>s holding the UTF-8 bytes of the text. The handlers
  only compare strings for equality and test them for emptiness, and both are preserved
  by the encoding. Python \<open>int\<close> is \<open>int\<close>. A \<open>datetime\<close> is an opaque timestamp.
\<close>

type_synonym datetime = int

datatype error =
    HTTPException int string
  | IntegrityError
  | OverflowError
  | ResponseValidationError

subsection \<open>Python values and truthiness\<close>

text \<open>The values a field of \<open>request.dict()\<close> can hold: \<open>str\<close>, \<open>int\<close> or \<open>None\<close>.\<close>

datatype pyval = PyNone | PyInt int | PyStr string

fun truthy :: "pyval \<Rightarrow> bool" where
  "truthy PyNone = False"
| "truthy (PyInt n) = (n \<noteq> 0)"
| "truthy (PyStr s) = (s \<noteq> [])"

subsection \<open>Password hashing (lines 70-71)\<close>

text \<open>
  \<open>pwd_context.hash\<close> is passlib's bcrypt. It draws a fresh salt on each call, so it is a
  parameter \<open>bcrypt\<close> of the model taking the salt and the password; the salt of a call
  is an input of that call.
\<close>

definition hash_password :: "(string \<Rightarrow> string \<Rightarrow> string) \<Rightarrow> string \<Rightarrow> string \<Rightarrow> string" where
  "hash_password bcrypt salt password = bcrypt salt password"

subsection \<open>Tables (lines 18-38) and schemas (lines 42-61)\<close>

text \<open>
  One record per mapped class and per schema class, with the fields of the source. The
  column \<open>id\<close> is the field \<open>id'\<close>. The classes give their table names in the attribute
  \<open>tablename\<close>; the model takes \<open>users\<close> and \<open>repair_requests\<close> as the two tables, as the
  foreign key \<open>users.id\<close> of line 37 does. The string columns are never written with
  \<open>None\<close> by any handler, so they are plain strings; \<open>master_id\<close> is nullable.
\<close>

record User =
  id' :: int
  username :: string
  hashed_password :: string
  role :: string

record RepairRequest =
  id' :: int
  request_date :: datetime
  equipment_type :: string
  model :: string
  problem_description :: string
  client_name :: string
  phone_number :: string
  status :: string
  master_id :: "int option"

record RepairRequestCreate =
  equipment_type :: string
  model :: string
  problem_description :: string
  client_name :: string
  phone_number :: string
  status :: string
  master_id :: "int option"

record RepairRequestResponse = RepairRequestCreate +
  id' :: int
  request_date :: datetime

record UserCreate =
  username :: string
  password :: string
  role :: string

record database =
  users :: "User list"
  repair_requests :: "RepairRequest list"

definition empty_database :: database where
  "empty_database = \<lparr>users = [], repair_requests = []\<rparr>"

text \<open>The three members of the \<open>Enum\<close> of column \<open>status\<close> (line 36), and the placeholder
  of line 119, as UTF-8 bytes.\<close>

definition status_new :: string where
  "status_new = [CHR 0xD0, CHR 0xBD, CHR 0xD0, CHR 0xBE, CHR 0xD0, CHR 0xB2, CHR 0xD0,
     CHR 0xB0, CHR 0xD1, CHR 0x8F]"

definition status_in_progress :: string where
  "status_in_progress = [CHR 0xD0, CHR 0xB2, CHR 0x20, CHR 0xD0, CHR 0xBF, CHR 0xD1,
     CHR 0x80, CHR 0xD0, CHR 0xBE, CHR 0xD1, CHR 0x86, CHR 0xD0, CHR 0xB5, CHR 0xD1,
     CHR 0x81, CHR 0xD1, CHR 0x81, CHR 0xD0, CHR 0xB5]"

definition status_completed :: string where
  "status_completed = [CHR 0xD0, CHR 0xB7, CHR 0xD0, CHR 0xB0, CHR 0xD0, CHR 0xB2,
     CHR 0xD0, CHR 0xB5, CHR 0xD1, CHR 0x80, CHR 0xD1, CHR 0x88, CHR 0xD0, CHR 0xB5,
     CHR 0xD0, CHR 0xBD, CHR 0xD0, CHR 0xB0]"

definition status_enum :: "string list" where
  "status_enum = [status_new, status_in_progress, status_completed]"

definition average_time_placeholder :: string where
  "average_time_placeholder = [CHR 0xD0, CHR 0x9E, CHR 0xD0, CHR 0xB6, CHR 0xD0, CHR 0xB8,
     CHR 0xD0, CHR 0xB4, CHR 0xD0, CHR 0xB0, CHR 0xD0, CHR 0xBD, CHR 0xD0, CHR 0xB8,
     CHR 0xD0, CHR 0xB5, CHR 0x20, CHR 0xD1, CHR 0x80, CHR 0xD0, CHR 0xB5, CHR 0xD0,
     CHR 0xB0, CHR 0xD0, CHR 0xBB, CHR 0xD0, CHR 0xB8, CHR 0xD0, CHR 0xB7, CHR 0xD0,
     CHR 0xB0, CHR 0xD1, CHR 0x86, CHR 0xD0, CHR 0xB8, CHR 0xD0, CHR 0xB8]"

subsection \<open>The storage layer\<close>

text \<open>
  The handlers reach the tables through SQLAlchemy; what an insert, an update or a query
  does is fixed by the column declarations of lines 21-37 and by the query expressions,
  not by code of this repository. The model gives them their SQL meaning:
  \<^item> a table is the list of its rows in insertion order, and a query without
    \<open>ORDER BY\<close> scans it in that order;
  \<^item> \<open>primary_key=True\<close> on an integer column: an inserted row gets an identifier one
    above the largest in the table (1 in an empty table);
  \<^item> \<open>unique=True\<close> on \<open>username\<close>: committing a row whose username is already in the
    table raises and stores nothing;
  \<^item> \<open>OFFSET n\<close> drops the first \<open>n\<close> rows (none when \<open>n\<close> is negative), \<open>LIMIT n\<close> keeps
    at most \<open>n\<close> rows (all of them when \<open>n\<close> is negative);
  \<^item> the foreign key of \<open>master_id\<close> is not checked;
  \<^item> an integer handed to the database as a parameter of a statement (the id of a
    lookup, \<open>skip\<close> and \<open>limit\<close>, a \<open>master_id\<close> to be written) is a signed 64-bit
    integer there: for a Python \<open>int\<close> outside that range the driver raises
    \<open>OverflowError\<close> and the statement is not run.
  Identifiers are generated without an upper bound: the model does not limit the number
  of rows of a table.
\<close>

definition sqlite_integer :: "int \<Rightarrow> bool" where
  "sqlite_integer n = (- (2 ^ 63) \<le> n \<and> n < 2 ^ 63)"

definition bindable :: "int option \<Rightarrow> bool" where
  "bindable v = (case v of None \<Rightarrow> True | Some n \<Rightarrow> sqlite_integer n)"

fun max_id :: "int list \<Rightarrow> int" where
  "max_id [] = 0"
| "max_id (i # is) = max i (max_id is)"

definition next_id :: "int list \<Rightarrow> int" where
  "next_id ids = max_id ids + 1"

definition offset :: "int \<Rightarrow> 'a list \<Rightarrow> 'a list" where
  "offset n rows = drop (nat n) rows"

definition limit :: "int \<Rightarrow> 'a list \<Rightarrow> 'a list" where
  "limit n rows = (if n < 0 then rows else take (nat n) rows)"

definition first :: "'a list \<Rightarrow> 'a option" where
  "first rows = (case rows of [] \<Rightarrow> None | r # _ \<Rightarrow> Some r)"

text \<open>Modelled from the spec: the uniqueness check that the storage layer applies to
  column \<open>username\<close>, declared \<open>unique=True\<close> at line 22 and enforced outside this
  repository's source. The spec: "fails if \<open>username\<close> is not unique (storage-level
  constraint violation); no explicit duplicate-check is performed before insert".\<close>

definition unique_username :: "User list \<Rightarrow> string \<Rightarrow> bool" where
  "unique_username rows name = (name \<notin> set (map User.username rows))"

text \<open>Modelled from the spec: the check that the storage layer (SQLAlchemy's \<open>Enum\<close>
  type over SQLite, which is not part of this repository's source) applies to a value
  written to column \<open>status\<close>. The spec: "an invalid value is expected to fail at the
  storage boundary". A write of a value outside the \<open>Enum\<close> raises at \<open>commit\<close> and
  stores nothing.\<close>

definition enum_accepts :: "string \<Rightarrow> bool" where
  "enum_accepts s = (s \<in> set status_enum)"

text \<open>A creation payload that the storage layer stores: its status is accepted and its
  \<open>master_id\<close>, when given, fits the integers of the database. A payload that fails both
  raises the error of the status in the model.\<close>

definition valid_payload :: "RepairRequestCreate \<Rightarrow> bool" where
  "valid_payload request =
     (enum_accepts (RepairRequestCreate.status request)
      \<and> bindable (RepairRequestCreate.master_id request))"

subsection \<open>User creation (lines 70-79)\<close>

definition create_user ::
  "(string \<Rightarrow> string \<Rightarrow> string) \<Rightarrow> string \<Rightarrow> UserCreate \<Rightarrow> database \<Rightarrow> (error + User) \<times> database" where
  "create_user bcrypt salt user db =
     (let db_user = \<lparr>User.id' = next_id (map User.id' (users db)),
                     User.username = UserCreate.username user,
                     User.hashed_password = hash_password bcrypt salt (UserCreate.password user),
                     User.role = UserCreate.role user\<rparr>
      in if unique_username (users db) (User.username db_user)
         then (Inr db_user, db\<lparr>users := users db @ [db_user]\<rparr>)
         else (Inl IntegrityError, db))"

text \<open>
  The route declares \<open>response_model=UserCreate\<close>, so the framework builds the response
  by reading the fields \<open>username\<close>, \<open>password\<close> and \<open>role\<close> of \<open>UserCreate\<close> from the
  object the handler returned, and raises when one is missing. The returned object is
  the \<open>User\<close> row, whose attributes are its four columns.
\<close>

definition getattr_User :: "User \<Rightarrow> string \<Rightarrow> pyval option" where
  "getattr_User u name =
     (if name = ''id'' then Some (PyInt (User.id' u))
      else if name = ''username'' then Some (PyStr (User.username u))
      else if name = ''hashed_password'' then Some (PyStr (User.hashed_password u))
      else if name = ''role'' then Some (PyStr (User.role u))
      else None)"

definition response_UserCreate :: "User \<Rightarrow> error + UserCreate" where
  "response_UserCreate obj =
     (case (getattr_User obj ''username'', getattr_User obj ''password'',
            getattr_User obj ''role'') of
        (Some (PyStr u), Some (PyStr p), Some (PyStr r)) \<Rightarrow>
          Inr \<lparr>UserCreate.username = u, UserCreate.password = p, UserCreate.role = r\<rparr>
      | _ \<Rightarrow> Inl ResponseValidationError)"

definition post_users ::
  "(string \<Rightarrow> string \<Rightarrow> string) \<Rightarrow> string \<Rightarrow> UserCreate \<Rightarrow> database \<Rightarrow> (error + UserCreate) \<times> database" where
  "post_users bcrypt salt user db =
     (case create_user bcrypt salt user db of
        (Inl e, db') \<Rightarrow> (Inl e, db')
      | (Inr db_user, db') \<Rightarrow> (response_UserCreate db_user, db'))"

subsection \<open>Repair requests (lines 82-113)\<close>

text \<open>\<open>RepairRequestResponse\<close> has \<open>orm_mode\<close>: the response copies the attributes of the
  row, which has every field of the schema.\<close>

definition from_orm :: "RepairRequest \<Rightarrow> RepairRequestResponse" where
  "from_orm r =
     \<lparr>RepairRequestCreate.equipment_type = RepairRequest.equipment_type r,
      RepairRequestCreate.model = RepairRequest.model r,
      RepairRequestCreate.problem_description = RepairRequest.problem_description r,
      RepairRequestCreate.client_name = RepairRequest.client_name r,
      RepairRequestCreate.phone_number = RepairRequest.phone_number r,
      RepairRequestCreate.status = RepairRequest.status r,
      RepairRequestCreate.master_id = RepairRequest.master_id r,
      RepairRequestResponse.id' = RepairRequest.id' r,
      RepairRequestResponse.request_date = RepairRequest.request_date r\<rparr>"

text \<open>\<open>utcnow\<close> is the value of \<open>datetime.utcnow()\<close> when the row is inserted (the column
  default of line 30), an input of the call.\<close>

definition create_request ::
  "datetime \<Rightarrow> RepairRequestCreate \<Rightarrow> database \<Rightarrow> (error + RepairRequest) \<times> database" where
  "create_request utcnow request db =
     (let db_request =
        \<lparr>RepairRequest.id' = next_id (map RepairRequest.id' (repair_requests db)),
         RepairRequest.request_date = utcnow,
         RepairRequest.equipment_type = RepairRequestCreate.equipment_type request,
         RepairRequest.model = RepairRequestCreate.model request,
         RepairRequest.problem_description = RepairRequestCreate.problem_description request,
         RepairRequest.client_name = RepairRequestCreate.client_name request,
         RepairRequest.phone_number = RepairRequestCreate.phone_number request,
         RepairRequest.status = RepairRequestCreate.status request,
         RepairRequest.master_id = RepairRequestCreate.master_id request\<rparr>
      in if \<not> enum_accepts (RepairRequest.status db_request)
         then (Inl IntegrityError, db)
         else if \<not> bindable (RepairRequest.master_id db_request)
         then (Inl OverflowError, db)
         else (Inr db_request, db\<lparr>repair_requests := repair_requests db @ [db_request]\<rparr>))"

definition read_requests :: "int \<Rightarrow> int \<Rightarrow> database \<Rightarrow> error + RepairRequest list" where
  "read_requests skip lim db =
     (if sqlite_integer skip \<and> sqlite_integer lim
      then Inr (limit lim (offset skip (repair_requests db)))
      else Inl OverflowError)"

definition read_request :: "int \<Rightarrow> database \<Rightarrow> error + RepairRequest" where
  "read_request request_id db =
     (if \<not> sqlite_integer request_id then Inl OverflowError
      else case first (filter (\<lambda>r. RepairRequest.id' r = request_id) (repair_requests db)) of
        None \<Rightarrow> Inl (HTTPException 404 ''Request not found'')
      | Some db_request \<Rightarrow> Inr db_request)"

text \<open>\<open>request.dict()\<close>: the fields of the payload in declaration order.\<close>

definition dict :: "RepairRequestCreate \<Rightarrow> (string \<times> pyval) list" where
  "dict request =
     [(''equipment_type'', PyStr (RepairRequestCreate.equipment_type request)),
      (''model'', PyStr (RepairRequestCreate.model request)),
      (''problem_description'', PyStr (RepairRequestCreate.problem_description request)),
      (''client_name'', PyStr (RepairRequestCreate.client_name request)),
      (''phone_number'', PyStr (RepairRequestCreate.phone_number request)),
      (''status'', PyStr (RepairRequestCreate.status request)),
      (''master_id'', (case RepairRequestCreate.master_id request of
                          None \<Rightarrow> PyNone | Some m \<Rightarrow> PyInt m))]"

text \<open>\<open>setattr\<close> on a row. The schema layer has typed every value of the payload, so a
  value of another type than its column never arrives; the model leaves the row as it
  is there, and also for a name that is not a column.\<close>

definition setattr :: "RepairRequest \<Rightarrow> string \<Rightarrow> pyval \<Rightarrow> RepairRequest" where
  "setattr r var v =
     (case v of
        PyStr s \<Rightarrow>
          (if var = ''equipment_type'' then r\<lparr>RepairRequest.equipment_type := s\<rparr>
           else if var = ''model'' then r\<lparr>RepairRequest.model := s\<rparr>
           else if var = ''problem_description'' then r\<lparr>RepairRequest.problem_description := s\<rparr>
           else if var = ''client_name'' then r\<lparr>RepairRequest.client_name := s\<rparr>
           else if var = ''phone_number'' then r\<lparr>RepairRequest.phone_number := s\<rparr>
           else if var = ''status'' then r\<lparr>RepairRequest.status := s\<rparr>
           else r)
      | PyInt n \<Rightarrow>
          (if var = ''master_id'' then r\<lparr>RepairRequest.master_id := Some n\<rparr> else r)
      | PyNone \<Rightarrow>
          (if var = ''master_id'' then r\<lparr>RepairRequest.master_id := None\<rparr> else r))"

text \<open>The loop of lines 109-110.\<close>

fun set_truthy :: "(string \<times> pyval) list \<Rightarrow> RepairRequest \<Rightarrow> RepairRequest" where
  "set_truthy [] r = r"
| "set_truthy ((var, v) # items) r =
     set_truthy items (if truthy v then setattr r var v else r)"

text \<open>\<open>commit\<close> writes the changed columns to the rows whose primary key is that of the
  loaded row. The \<open>master_id\<close> of the payload is handed to the database only when the
  loop has set it, that is when it is truthy.\<close>

definition master_overflows :: "RepairRequestCreate \<Rightarrow> bool" where
  "master_overflows request =
     (case RepairRequestCreate.master_id request of
        None \<Rightarrow> False
      | Some m \<Rightarrow> truthy (PyInt m) \<and> \<not> sqlite_integer m)"

definition update_request ::
  "int \<Rightarrow> RepairRequestCreate \<Rightarrow> database \<Rightarrow> (error + RepairRequest) \<times> database" where
  "update_request request_id request db =
     (if \<not> sqlite_integer request_id then (Inl OverflowError, db)
      else case first (filter (\<lambda>r. RepairRequest.id' r = request_id) (repair_requests db)) of
        None \<Rightarrow> (Inl (HTTPException 404 ''Request not found''), db)
      | Some db_request \<Rightarrow>
          (let db_request' = set_truthy (dict request) db_request
           in if \<not> enum_accepts (RepairRequest.status db_request')
              then (Inl IntegrityError, db)
              else if master_overflows request
              then (Inl OverflowError, db)
              else (Inr db_request',
                    db\<lparr>repair_requests :=
                         map (\<lambda>r. if RepairRequest.id' r = RepairRequest.id' db_request
                                   then set_truthy (dict request) r else r)
                             (repair_requests db)\<rparr>)))"

subsection \<open>Statistics (lines 116-123)\<close>

record Statistics =
  completed_requests_count :: int
  average_time :: string

definition get_statistics :: "database \<Rightarrow> Statistics" where
  "get_statistics db =
     (let completed_requests =
            int (length (filter (\<lambda>r. RepairRequest.status r = status_completed)
                                (repair_requests db)));
          average_time = average_time_placeholder
      in \<lparr>completed_requests_count = completed_requests, average_time = average_time\<rparr>)"

subsection \<open>The routes with their response models\<close>

definition post_requests ::
  "datetime \<Rightarrow> RepairRequestCreate \<Rightarrow> database \<Rightarrow> (error + RepairRequestResponse) \<times> database" where
  "post_requests utcnow request db =
     (case create_request utcnow request db of
        (Inl e, db') \<Rightarrow> (Inl e, db')
      | (Inr r, db') \<Rightarrow> (Inr (from_orm r), db'))"

definition get_requests :: "int \<Rightarrow> int \<Rightarrow> database \<Rightarrow> error + RepairRequestResponse list" where
  "get_requests skip lim db =
     (case read_requests skip lim db of Inl e \<Rightarrow> Inl e | Inr rows \<Rightarrow> Inr (map from_orm rows))"

definition get_request :: "int \<Rightarrow> database \<Rightarrow> error + RepairRequestResponse" where
  "get_request request_id db =
     (case read_request request_id db of Inl e \<Rightarrow> Inl e | Inr r \<Rightarrow> Inr (from_orm r))"

definition put_request ::
  "int \<Rightarrow> RepairRequestCreate \<Rightarrow> database \<Rightarrow> (error + RepairRequestResponse) \<times> database" where
  "put_request request_id request db =
     (case update_request request_id request db of
        (Inl e, db') \<Rightarrow> (Inl e, db')
      | (Inr r, db') \<Rightarrow> (Inr (from_orm r), db'))"

subsection \<open>Runs of the service\<close>

text \<open>A call names a route with its inputs. Only the database after the call matters for
  the next one; the read-only routes leave it as it is.\<close>

datatype call =
    PostUsers string UserCreate
  | PostRequests datetime RepairRequestCreate
  | GetRequests int int
  | GetRequest int
  | PutRequest int RepairRequestCreate
  | GetStatistics

fun step :: "(string \<Rightarrow> string \<Rightarrow> string) \<Rightarrow> call \<Rightarrow> database \<Rightarrow> database" where
  "step bcrypt (PostUsers salt user) db = snd (post_users bcrypt salt user db)"
| "step bcrypt (PostRequests utcnow request) db = snd (post_requests utcnow request db)"
| "step bcrypt (GetRequests skip lim) db = db"
| "step bcrypt (GetRequest request_id) db = db"
| "step bcrypt (PutRequest request_id request) db = snd (put_request request_id request db)"
| "step bcrypt GetStatistics db = db"

fun run :: "(string \<Rightarrow> string \<Rightarrow> string) \<Rightarrow> call list \<Rightarrow> database \<Rightarrow> database" where
  "run bcrypt [] db = db"
| "run bcrypt (c # cs) db = run bcrypt cs (step bcrypt c db)"

subsection \<open>Example data\<close>

text \<open>A creation payload used to run the model on concrete inputs.\<close>

definition laptop :: RepairRequestCreate where
  "laptop = \<lparr>RepairRequestCreate.equipment_type = ''laptop'',
     RepairRequestCreate.model = ''X1'',
     RepairRequestCreate.problem_description = ''screen cracked'',
     RepairRequestCreate.client_name = ''A. Ivanov'',
     RepairRequestCreate.phone_number = ''555-0100'',
     RepairRequestCreate.status = status_new,
     RepairRequestCreate.master_id = None\<rparr>"

definition assigned_laptop :: RepairRequestCreate where
  "assigned_laptop = laptop\<lparr>RepairRequestCreate.master_id := Some 7\<rparr>"

definition all_falsy :: RepairRequestCreate where
  "all_falsy = \<lparr>RepairRequestCreate.equipment_type = [],
     RepairRequestCreate.model = [],
     RepairRequestCreate.problem_description = [],
     RepairRequestCreate.client_name = [],
     RepairRequestCreate.phone_number = [],
     RepairRequestCreate.status = [],
     RepairRequestCreate.master_id = None\<rparr>"

definition completed_laptop :: RepairRequestCreate where
  "completed_laptop = laptop\<lparr>RepairRequestCreate.status := status_completed\<rparr>"

text \<open>Five creations, three with status "completed" and two with status "new".\<close>

definition five_requests :: "(datetime \<times> RepairRequestCreate) list" where
  "five_requests =
     [(1700000001, completed_laptop), (1700000002, laptop), (1700000003, completed_laptop),
      (1700000004, laptop), (1700000005, completed_laptop)]"

definition invalid_status_laptop :: RepairRequestCreate where
  "invalid_status_laptop = laptop\<lparr>RepairRequestCreate.status := ''done''\<rparr>"

definition alice :: UserCreate where
  "alice = \<lparr>UserCreate.username = ''alice'', UserCreate.password = ''secret'',
     UserCreate.role = ''admin''\<rparr>"

text \<open>A stand-in for bcrypt on concrete inputs: it never returns the password itself.\<close>

definition toy_bcrypt :: "string \<Rightarrow> string \<Rightarrow> string" where
  "toy_bcrypt salt pw = CHR ''$'' # salt @ pw"

section \<open>Lemmas about the model\<close>

subsection \<open>Facts about the storage layer\<close>

lemma max_id_ge: "i \<in> set ids \<Longrightarrow> i \<le> max_id ids"
  by (induction ids) auto

lemma next_id_fresh: "next_id ids \<notin> set ids"
  using max_id_ge [of "next_id ids" ids] by (auto simp: next_id_def)

lemma first_filter_None: "first (filter P rows) = None \<longleftrightarrow> (\<forall>r \<in> set rows. \<not> P r)"
  by (induction rows) (auto simp: first_def)

lemma first_filter_Some: "first (filter P rows) = Some r \<Longrightarrow> r \<in> set rows \<and> P r"
  by (induction rows) (auto simp: first_def split: if_splits)

lemma first_filter_unique:
  "distinct (map f rows) \<Longrightarrow> r \<in> set rows \<Longrightarrow> first (filter (\<lambda>x. f x = f r) rows) = Some r"
  by (induction rows) (auto simp: first_def)

lemma first_filter_append_fresh:
  "\<forall>x \<in> set rows. \<not> P x \<Longrightarrow> P r \<Longrightarrow> first (filter P (rows @ [r])) = Some r"
  by (induction rows) (auto simp: first_def)

subsection \<open>What the update loop does to each column\<close>

lemma setattr_simps:
  "setattr r ''equipment_type'' (PyStr s) = r\<lparr>RepairRequest.equipment_type := s\<rparr>"
  "setattr r ''model'' (PyStr s) = r\<lparr>RepairRequest.model := s\<rparr>"
  "setattr r ''problem_description'' (PyStr s) = r\<lparr>RepairRequest.problem_description := s\<rparr>"
  "setattr r ''client_name'' (PyStr s) = r\<lparr>RepairRequest.client_name := s\<rparr>"
  "setattr r ''phone_number'' (PyStr s) = r\<lparr>RepairRequest.phone_number := s\<rparr>"
  "setattr r ''status'' (PyStr s) = r\<lparr>RepairRequest.status := s\<rparr>"
  "setattr r ''master_id'' (PyInt n) = r\<lparr>RepairRequest.master_id := Some n\<rparr>"
  "setattr r ''master_id'' PyNone = r\<lparr>RepairRequest.master_id := None\<rparr>"
  by (simp_all add: setattr_def)

lemma set_truthy_id: "RepairRequest.id' (set_truthy (dict q) r) = RepairRequest.id' r"
  by (simp add: dict_def setattr_simps split: option.split)

lemma set_truthy_request_date:
  "RepairRequest.request_date (set_truthy (dict q) r) = RepairRequest.request_date r"
  by (simp add: dict_def setattr_simps split: option.split)

lemma set_truthy_equipment_type:
  "RepairRequest.equipment_type (set_truthy (dict q) r) =
     (if RepairRequestCreate.equipment_type q \<noteq> [] then RepairRequestCreate.equipment_type q
      else RepairRequest.equipment_type r)"
  by (simp add: dict_def setattr_simps split: option.split)

lemma set_truthy_model:
  "RepairRequest.model (set_truthy (dict q) r) =
     (if RepairRequestCreate.model q \<noteq> [] then RepairRequestCreate.model q
      else RepairRequest.model r)"
  by (simp add: dict_def setattr_simps split: option.split)

lemma set_truthy_problem_description:
  "RepairRequest.problem_description (set_truthy (dict q) r) =
     (if RepairRequestCreate.problem_description q \<noteq> []
      then RepairRequestCreate.problem_description q
      else RepairRequest.problem_description r)"
  by (simp add: dict_def setattr_simps split: option.split)

lemma set_truthy_client_name:
  "RepairRequest.client_name (set_truthy (dict q) r) =
     (if RepairRequestCreate.client_name q \<noteq> [] then RepairRequestCreate.client_name q
      else RepairRequest.client_name r)"
  by (simp add: dict_def setattr_simps split: option.split)

lemma set_truthy_phone_number:
  "RepairRequest.phone_number (set_truthy (dict q) r) =
     (if RepairRequestCreate.phone_number q \<noteq> [] then RepairRequestCreate.phone_number q
      else RepairRequest.phone_number r)"
  by (simp add: dict_def setattr_simps split: option.split)

lemma set_truthy_status:
  "RepairRequest.status (set_truthy (dict q) r) =
     (if RepairRequestCreate.status q \<noteq> [] then RepairRequestCreate.status q
      else RepairRequest.status r)"
  by (simp add: dict_def setattr_simps split: option.split)

lemma set_truthy_master_id:
  "RepairRequest.master_id (set_truthy (dict q) r) =
     (case RepairRequestCreate.master_id q of
        None \<Rightarrow> RepairRequest.master_id r
      | Some m \<Rightarrow> if m \<noteq> 0 then Some m else RepairRequest.master_id r)"
  by (simp add: dict_def setattr_simps split: option.split)

lemmas set_truthy_fields =
  set_truthy_id set_truthy_request_date set_truthy_equipment_type set_truthy_model
  set_truthy_problem_description set_truthy_client_name set_truthy_phone_number
  set_truthy_status set_truthy_master_id

subsection \<open>The effect of each handler on the tables\<close>

lemma create_request_stored:
  assumes "valid_payload q"
  shows "\<exists>r. create_request utcnow q db =
               (Inr r, db\<lparr>repair_requests := repair_requests db @ [r]\<rparr>)
           \<and> RepairRequest.id' r = next_id (map RepairRequest.id' (repair_requests db))
           \<and> RepairRequest.status r = RepairRequestCreate.status q
           \<and> from_orm r = RepairRequestCreate.extend q
                 \<lparr>RepairRequestResponse.id' = RepairRequest.id' r,
                  RepairRequestResponse.request_date = utcnow\<rparr>"
  using assms
  by (simp add: create_request_def Let_def from_orm_def RepairRequestCreate.extend_def
        valid_payload_def)

lemma create_request_rejected:
  "\<not> enum_accepts (RepairRequestCreate.status q) \<Longrightarrow>
     create_request utcnow q db = (Inl IntegrityError, db)"
  by (simp add: create_request_def Let_def)

lemma create_request_overflow:
  "enum_accepts (RepairRequestCreate.status q) \<Longrightarrow>
   \<not> bindable (RepairRequestCreate.master_id q) \<Longrightarrow>
     create_request utcnow q db = (Inl OverflowError, db)"
  by (simp add: create_request_def Let_def)

lemma create_request_rows:
  "repair_requests (snd (create_request utcnow q db)) = repair_requests db
   \<or> (\<exists>r. repair_requests (snd (create_request utcnow q db)) = repair_requests db @ [r]
        \<and> RepairRequest.id' r = next_id (map RepairRequest.id' (repair_requests db))
        \<and> enum_accepts (RepairRequest.status r))"
  by (simp add: create_request_def Let_def)

lemma update_request_overflow_id:
  "\<not> sqlite_integer request_id \<Longrightarrow> update_request request_id q db = (Inl OverflowError, db)"
  by (simp add: update_request_def)

lemma update_request_not_found:
  "sqlite_integer request_id \<Longrightarrow>
   \<forall>r \<in> set (repair_requests db). RepairRequest.id' r \<noteq> request_id \<Longrightarrow>
     update_request request_id q db = (Inl (HTTPException 404 ''Request not found''), db)"
  using first_filter_None [of "\<lambda>r. RepairRequest.id' r = request_id" "repair_requests db"]
  by (simp add: update_request_def)

lemma update_request_found:
  assumes "first (filter (\<lambda>r. RepairRequest.id' r = request_id) (repair_requests db)) = Some old"
    and "sqlite_integer request_id"
  shows "update_request request_id q db =
     (if \<not> enum_accepts (RepairRequest.status (set_truthy (dict q) old))
      then (Inl IntegrityError, db)
      else if master_overflows q then (Inl OverflowError, db)
      else (Inr (set_truthy (dict q) old),
            db\<lparr>repair_requests :=
                 map (\<lambda>r. if RepairRequest.id' r = request_id then set_truthy (dict q) r else r)
                     (repair_requests db)\<rparr>))"
proof -
  have "RepairRequest.id' old = request_id"
    using first_filter_Some [OF assms(1)] by simp
  then show ?thesis
    by (simp add: update_request_def assms Let_def)
qed

lemma update_request_rows:
  "repair_requests (snd (update_request request_id q db)) = repair_requests db
   \<or> \<not> master_overflows q
     \<and> (\<exists>old \<in> set (repair_requests db).
          enum_accepts (RepairRequest.status (set_truthy (dict q) old)))
     \<and> repair_requests (snd (update_request request_id q db)) =
       map (\<lambda>r. if RepairRequest.id' r = request_id then set_truthy (dict q) r else r)
           (repair_requests db)"
proof (cases "sqlite_integer request_id")
  case False
  then show ?thesis by (simp add: update_request_overflow_id)
next
  case True
  show ?thesis
  proof (cases "first (filter (\<lambda>r. RepairRequest.id' r = request_id) (repair_requests db))")
    case None
    then show ?thesis by (simp add: update_request_def True)
  next
    case (Some old)
    from first_filter_Some [OF Some] have "old \<in> set (repair_requests db)" by simp
    then show ?thesis by (auto simp: update_request_found [OF Some True])
  qed
qed

lemma update_request_ids:
  "map RepairRequest.id' (repair_requests (snd (update_request request_id q db))) =
     map RepairRequest.id' (repair_requests db)"
proof -
  have "map RepairRequest.id'
          (map (\<lambda>r. if RepairRequest.id' r = request_id then set_truthy (dict q) r else r)
               (repair_requests db)) =
        map RepairRequest.id' (repair_requests db)"
    by (simp add: set_truthy_id o_def cong: map_cong)
  with update_request_rows [of request_id q db] show ?thesis by auto
qed

lemma update_request_users: "users (snd (update_request request_id q db)) = users db"
  by (simp add: update_request_def Let_def split: option.split)

lemma create_request_users: "users (snd (create_request utcnow q db)) = users db"
  by (simp add: create_request_def Let_def)

lemma create_request_ids_distinct:
  assumes "distinct (map RepairRequest.id' (repair_requests db))"
  shows "distinct (map RepairRequest.id' (repair_requests (snd (create_request utcnow q db))))"
  using assms create_request_rows [of utcnow q db]
    next_id_fresh [of "map RepairRequest.id' (repair_requests db)"]
  by auto

lemma snd_post_users: "snd (post_users bcrypt salt user db) = snd (create_user bcrypt salt user db)"
  by (cases "create_user bcrypt salt user db") (simp add: post_users_def split: sum.split)

lemma snd_post_requests: "snd (post_requests utcnow q db) = snd (create_request utcnow q db)"
  by (cases "create_request utcnow q db") (simp add: post_requests_def split: sum.split)

lemma snd_put_request: "snd (put_request request_id q db) = snd (update_request request_id q db)"
  by (cases "update_request request_id q db") (simp add: put_request_def split: sum.split)

lemma create_user_requests:
  "repair_requests (snd (create_user bcrypt salt user db)) = repair_requests db"
  by (simp add: create_user_def Let_def)

lemma step_ids_distinct:
  assumes "distinct (map RepairRequest.id' (repair_requests db))"
  shows "distinct (map RepairRequest.id' (repair_requests (step bcrypt c db)))"
proof (cases c)
  case (PostUsers salt user)
  then show ?thesis using assms by (simp add: snd_post_users create_user_requests)
next
  case (PostRequests utcnow q)
  then show ?thesis
    using create_request_ids_distinct [OF assms] by (simp add: snd_post_requests)
next
  case (PutRequest request_id q)
  then show ?thesis using assms by (simp add: snd_put_request update_request_ids)
qed (simp_all add: assms)

lemma run_ids_distinct:
  "distinct (map RepairRequest.id' (repair_requests db)) \<Longrightarrow>
   distinct (map RepairRequest.id' (repair_requests (run bcrypt calls db)))"
  by (induction calls arbitrary: db) (simp_all add: step_ids_distinct)

lemma reachable_ids_distinct:
  "distinct (map RepairRequest.id' (repair_requests (run bcrypt calls empty_database)))"
  by (rule run_ids_distinct) (simp add: empty_database_def)

subsection \<open>Updates keep identifiers and assigned masters\<close>

lemma first_filter_map:
  "(\<And>r. P (f r) = P r) \<Longrightarrow> first (filter P (map f rows)) = map_option f (first (filter P rows))"
  by (induction rows) (auto simp: first_def)

lemma set_truthy_keeps_master:
  "RepairRequest.master_id r \<noteq> None \<Longrightarrow> RepairRequest.master_id (set_truthy (dict q) r) \<noteq> None"
  by (simp add: set_truthy_master_id split: option.split)

lemma step_keeps_master:
  assumes "i < length (repair_requests db)"
  shows "i < length (repair_requests (step bcrypt c db))
     \<and> RepairRequest.id' (repair_requests (step bcrypt c db) ! i) =
         RepairRequest.id' (repair_requests db ! i)
     \<and> (RepairRequest.master_id (repair_requests db ! i) \<noteq> None \<longrightarrow>
         RepairRequest.master_id (repair_requests (step bcrypt c db) ! i) \<noteq> None)"
proof (cases c)
  case (PostUsers salt user)
  then show ?thesis using assms by (simp add: snd_post_users create_user_requests)
next
  case (PostRequests utcnow q)
  then show ?thesis
    using assms create_request_rows [of utcnow q db]
    by (auto simp: snd_post_requests nth_append)
next
  case (PutRequest request_id q)
  then show ?thesis
    using assms update_request_rows [of request_id q db]
    by (auto simp: snd_put_request set_truthy_id set_truthy_master_id split: option.split)
qed (simp_all add: assms)

lemma run_keeps_master:
  "i < length (repair_requests db) \<Longrightarrow>
   RepairRequest.master_id (repair_requests db ! i) \<noteq> None \<Longrightarrow>
     i < length (repair_requests (run bcrypt calls db))
     \<and> RepairRequest.id' (repair_requests (run bcrypt calls db) ! i) =
         RepairRequest.id' (repair_requests db ! i)
     \<and> RepairRequest.master_id (repair_requests (run bcrypt calls db) ! i) \<noteq> None"
proof (induction calls arbitrary: db)
  case Nil
  then show ?case by simp
next
  case (Cons c calls)
  from step_keeps_master [OF Cons.prems(1), of bcrypt c] Cons.prems(2)
  have s: "i < length (repair_requests (step bcrypt c db))"
    "RepairRequest.id' (repair_requests (step bcrypt c db) ! i) =
       RepairRequest.id' (repair_requests db ! i)"
    "RepairRequest.master_id (repair_requests (step bcrypt c db) ! i) \<noteq> None"
    by simp_all
  from Cons.IH [OF s(1) s(3)] s(2) show ?case by simp
qed

subsection \<open>Concrete runs\<close>

lemma run_laptop:
  "run bcrypt [PostRequests 1700000000 laptop] empty_database =
     \<lparr>users = [],
      repair_requests =
        [\<lparr>RepairRequest.id' = 1, RepairRequest.request_date = 1700000000,
          RepairRequest.equipment_type = ''laptop'', RepairRequest.model = ''X1'',
          RepairRequest.problem_description = ''screen cracked'',
          RepairRequest.client_name = ''A. Ivanov'',
          RepairRequest.phone_number = ''555-0100'',
          RepairRequest.status = status_new, RepairRequest.master_id = None\<rparr>]\<rparr>"
  by (simp add: post_requests_def create_request_def laptop_def empty_database_def
        next_id_def enum_accepts_def status_enum_def bindable_def Let_def)

lemma run_assigned_laptop:
  "run bcrypt [PostRequests 1700000000 assigned_laptop] empty_database =
     \<lparr>users = [],
      repair_requests =
        [\<lparr>RepairRequest.id' = 1, RepairRequest.request_date = 1700000000,
          RepairRequest.equipment_type = ''laptop'', RepairRequest.model = ''X1'',
          RepairRequest.problem_description = ''screen cracked'',
          RepairRequest.client_name = ''A. Ivanov'',
          RepairRequest.phone_number = ''555-0100'',
          RepairRequest.status = status_new, RepairRequest.master_id = Some 7\<rparr>]\<rparr>"
  by (simp add: post_requests_def create_request_def laptop_def assigned_laptop_def
        empty_database_def next_id_def enum_accepts_def status_enum_def bindable_def
        sqlite_integer_def Let_def)

subsection \<open>Runs of creations\<close>

lemma truncate_extend:
  "RepairRequestCreate.truncate (RepairRequestCreate.extend q ext) = q"
  by (simp add: RepairRequestCreate.truncate_def RepairRequestCreate.extend_def)

lemma status_from_orm: "RepairRequestCreate.status (from_orm r) = RepairRequest.status r"
  by (simp add: from_orm_def)

lemma status_enum_distinct:
  "status_new \<noteq> status_completed" "status_in_progress \<noteq> status_completed"
  "status_new \<noteq> status_in_progress" "status_new \<noteq> []" "status_completed \<noteq> []"
  "status_in_progress \<noteq> []"
  by (simp_all add: status_new_def status_completed_def status_in_progress_def)

lemma enum_accepts_iff:
  "enum_accepts s \<longleftrightarrow> s = status_new \<or> s = status_in_progress \<or> s = status_completed"
  by (auto simp: enum_accepts_def status_enum_def)

lemma run_append: "run bcrypt (cs @ cs') db = run bcrypt cs' (run bcrypt cs db)"
  by (induction cs arbitrary: db) simp_all

lemma run_post_requests:
  assumes "\<forall>q \<in> snd ` set tqs. valid_payload q"
  shows "map (\<lambda>r. RepairRequestCreate.truncate (from_orm r))
           (repair_requests (run bcrypt (map (\<lambda>(t, q). PostRequests t q) tqs) db)) =
         map (\<lambda>r. RepairRequestCreate.truncate (from_orm r)) (repair_requests db) @ map snd tqs"
  using assms
proof (induction tqs arbitrary: db)
  case Nil
  then show ?case by simp
next
  case (Cons tq tqs)
  obtain t q where tq: "tq = (t, q)" by (cases tq)
  from Cons.prems tq have "valid_payload q" by simp
  from create_request_stored [OF this, of t db] obtain r where
    r: "create_request t q db = (Inr r, db\<lparr>repair_requests := repair_requests db @ [r]\<rparr>)"
       "from_orm r = RepairRequestCreate.extend q
          \<lparr>RepairRequestResponse.id' = RepairRequest.id' r,
           RepairRequestResponse.request_date = t\<rparr>"
    by blast
  have "map (\<lambda>r. RepairRequestCreate.truncate (from_orm r))
          (repair_requests (run bcrypt (map (\<lambda>(t, q). PostRequests t q) tqs)
             (db\<lparr>repair_requests := repair_requests db @ [r]\<rparr>))) =
        map (\<lambda>r. RepairRequestCreate.truncate (from_orm r))
          (repair_requests (db\<lparr>repair_requests := repair_requests db @ [r]\<rparr>)) @ map snd tqs"
    using Cons.prems by (intro Cons.IH) simp
  then show ?case
    by (simp add: tq snd_post_requests r truncate_extend)
qed

lemma status_truncate_from_orm:
  "RepairRequestCreate.status (RepairRequestCreate.truncate (from_orm r)) = RepairRequest.status r"
  by (simp add: from_orm_def RepairRequestCreate.truncate_def)

lemma run_post_requests_statuses:
  assumes "\<forall>q \<in> snd ` set tqs. valid_payload q"
  shows "map RepairRequest.status
           (repair_requests (run bcrypt (map (\<lambda>(t, q). PostRequests t q) tqs) db)) =
         map RepairRequest.status (repair_requests db) @ map (\<lambda>(t, q). RepairRequestCreate.status q) tqs"
proof -
  have "map RepairRequestCreate.status
          (map (\<lambda>r. RepairRequestCreate.truncate (from_orm r))
             (repair_requests (run bcrypt (map (\<lambda>(t, q). PostRequests t q) tqs) db))) =
        map RepairRequestCreate.status
          (map (\<lambda>r. RepairRequestCreate.truncate (from_orm r)) (repair_requests db) @ map snd tqs)"
    by (simp only: run_post_requests [OF assms])
  then show ?thesis
    by (simp add: o_def status_truncate_from_orm case_prod_unfold)
qed

lemma count_completed_map:
  "length (filter (\<lambda>r. RepairRequest.status r = s) rows) =
   length (filter (\<lambda>x. x = s) (map RepairRequest.status rows))"
  by (induction rows) simp_all

lemma five_requests_statuses:
  "map (\<lambda>(t, q). RepairRequestCreate.status q) five_requests =
     [status_completed, status_new, status_completed, status_new, status_completed]"
  by (simp add: five_requests_def completed_laptop_def laptop_def)

lemma filter_status_map:
  "length (filter (\<lambda>(t, q). RepairRequestCreate.status q = s) tqs) =
   length (filter (\<lambda>x. x = s) (map (\<lambda>(t, q). RepairRequestCreate.status q) tqs))"
  by (induction tqs) auto

subsection \<open>The users table\<close>

lemma create_user_stored:
  assumes "unique_username (users db) (UserCreate.username user)"
  shows "\<exists>u. create_user bcrypt salt user db = (Inr u, db\<lparr>users := users db @ [u]\<rparr>)
     \<and> User.username u = UserCreate.username user
     \<and> User.hashed_password u = hash_password bcrypt salt (UserCreate.password user)
     \<and> User.role u = UserCreate.role user
     \<and> User.id' u = next_id (map User.id' (users db))"
  using assms by (simp add: create_user_def Let_def)

lemma create_user_rejected:
  "\<not> unique_username (users db) (UserCreate.username user) \<Longrightarrow>
     create_user bcrypt salt user db = (Inl IntegrityError, db)"
  by (simp add: create_user_def Let_def)

lemma create_user_users:
  "users (snd (create_user bcrypt salt user db)) = users db
   \<or> (\<exists>u. users (snd (create_user bcrypt salt user db)) = users db @ [u]
        \<and> User.username u = UserCreate.username user
        \<and> User.username u \<notin> set (map User.username (users db))
        \<and> User.hashed_password u = hash_password bcrypt salt (UserCreate.password user)
        \<and> User.role u = UserCreate.role user)"
  by (simp add: create_user_def Let_def unique_username_def)

lemma create_user_username_taken:
  "UserCreate.username user \<in> set (map User.username (users (snd (create_user bcrypt salt user db))))"
  by (simp add: create_user_def Let_def unique_username_def)

lemma step_users:
  "users (step bcrypt c db) = users db
   \<or> (\<exists>salt user u. c = PostUsers salt user \<and> users (step bcrypt c db) = users db @ [u]
        \<and> User.username u = UserCreate.username user
        \<and> User.username u \<notin> set (map User.username (users db))
        \<and> User.hashed_password u = hash_password bcrypt salt (UserCreate.password user)
        \<and> User.role u = UserCreate.role user)"
proof (cases c)
  case (PostUsers salt user)
  then show ?thesis
    using create_user_users [of bcrypt salt user db] by (auto simp: snd_post_users)
next
  case (PostRequests utcnow q)
  then show ?thesis by (simp add: snd_post_requests create_request_users)
next
  case (PutRequest request_id q)
  then show ?thesis by (simp add: snd_put_request update_request_users)
qed simp_all

lemma step_usernames_kept:
  "name \<in> set (map User.username (users db)) \<Longrightarrow>
   name \<in> set (map User.username (users (step bcrypt c db)))"
  using step_users [of bcrypt c db] by auto

lemma run_usernames_kept:
  "name \<in> set (map User.username (users db)) \<Longrightarrow>
   name \<in> set (map User.username (users (run bcrypt calls db)))"
proof (induction calls arbitrary: db)
  case Nil
  then show ?case by simp
next
  case (Cons c calls)
  from Cons.prems have "name \<in> set (map User.username (users (step bcrypt c db)))"
    by (rule step_usernames_kept)
  then have "name \<in> set (map User.username (users (run bcrypt calls (step bcrypt c db))))"
    by (rule Cons.IH)
  then show ?case by simp
qed

lemma step_usernames_distinct:
  "distinct (map User.username (users db)) \<Longrightarrow>
   distinct (map User.username (users (step bcrypt c db)))"
  using step_users [of bcrypt c db] by auto

lemma run_usernames_distinct:
  "distinct (map User.username (users db)) \<Longrightarrow>
   distinct (map User.username (users (run bcrypt calls db)))"
proof (induction calls arbitrary: db)
  case Nil
  then show ?case by simp
next
  case (Cons c calls)
  from Cons.prems have "distinct (map User.username (users (step bcrypt c db)))"
    by (rule step_usernames_distinct)
  then have "distinct (map User.username (users (run bcrypt calls (step bcrypt c db))))"
    by (rule Cons.IH)
  then show ?case by simp
qed

lemma step_users_origin:
  "u \<in> set (users (step bcrypt c db)) \<Longrightarrow>
     u \<in> set (users db)
     \<or> (\<exists>salt user. c = PostUsers salt user
          \<and> User.username u = UserCreate.username user
          \<and> User.hashed_password u = hash_password bcrypt salt (UserCreate.password user)
          \<and> User.role u = UserCreate.role user)"
  using step_users [of bcrypt c db] by auto

lemma run_users_origin:
  "u \<in> set (users (run bcrypt calls db)) \<Longrightarrow>
     u \<in> set (users db)
     \<or> (\<exists>salt user. PostUsers salt user \<in> set calls
          \<and> User.username u = UserCreate.username user
          \<and> User.hashed_password u = hash_password bcrypt salt (UserCreate.password user)
          \<and> User.role u = UserCreate.role user)"
proof (induction calls arbitrary: db)
  case Nil
  then show ?case by simp
next
  case (Cons c calls)
  from Cons.prems have "u \<in> set (users (run bcrypt calls (step bcrypt c db)))" by simp
  from Cons.IH [OF this] show ?case
  proof
    assume "u \<in> set (users (step bcrypt c db))"
    from step_users_origin [OF this] show ?thesis
    proof
      assume "u \<in> set (users db)"
      then show ?thesis ..
    next
      assume "\<exists>salt user. c = PostUsers salt user
          \<and> User.username u = UserCreate.username user
          \<and> User.hashed_password u = hash_password bcrypt salt (UserCreate.password user)
          \<and> User.role u = UserCreate.role user"
      then obtain salt user where "c = PostUsers salt user"
        "User.username u = UserCreate.username user"
        "User.hashed_password u = hash_password bcrypt salt (UserCreate.password user)"
        "User.role u = UserCreate.role user"
        by blast
      then have "PostUsers salt user \<in> set (c # calls)
          \<and> User.username u = UserCreate.username user
          \<and> User.hashed_password u = hash_password bcrypt salt (UserCreate.password user)
          \<and> User.role u = UserCreate.role user"
        by simp
      then show ?thesis by blast
    qed
  next
    assume "\<exists>salt user. PostUsers salt user \<in> set calls
          \<and> User.username u = UserCreate.username user
          \<and> User.hashed_password u = hash_password bcrypt salt (UserCreate.password user)
          \<and> User.role u = UserCreate.role user"
    then obtain salt user where "PostUsers salt user \<in> set calls"
        "User.username u = UserCreate.username user"
        "User.hashed_password u = hash_password bcrypt salt (UserCreate.password user)"
        "User.role u = UserCreate.role user"
      by blast
    then have "PostUsers salt user \<in> set (c # calls)
          \<and> User.username u = UserCreate.username user
          \<and> User.hashed_password u = hash_password bcrypt salt (UserCreate.password user)
          \<and> User.role u = UserCreate.role user"
      by simp
    then show ?thesis by blast
  qed
qed

subsection \<open>Statuses of stored requests\<close>

lemma step_statuses:
  assumes "\<forall>r \<in> set (repair_requests db). enum_accepts (RepairRequest.status r)"
  shows "\<forall>r \<in> set (repair_requests (step bcrypt c db)). enum_accepts (RepairRequest.status r)"
proof (cases c)
  case (PostUsers salt user)
  then show ?thesis using assms by (simp add: snd_post_users create_user_requests)
next
  case (PostRequests utcnow q)
  then show ?thesis
    using assms create_request_rows [of utcnow q db] by (auto simp: snd_post_requests)
next
  case (PutRequest request_id q)
  from update_request_rows [of request_id q db] show ?thesis
  proof
    assume "repair_requests (snd (update_request request_id q db)) = repair_requests db"
    then show ?thesis using assms by (simp add: PutRequest snd_put_request)
  next
    assume updated: "\<not> master_overflows q
     \<and> (\<exists>old \<in> set (repair_requests db).
          enum_accepts (RepairRequest.status (set_truthy (dict q) old)))
     \<and> repair_requests (snd (update_request request_id q db)) =
       map (\<lambda>r. if RepairRequest.id' r = request_id then set_truthy (dict q) r else r)
           (repair_requests db)"
    then obtain old where "old \<in> set (repair_requests db)"
      and old: "enum_accepts (RepairRequest.status (set_truthy (dict q) old))"
      by blast
    have "enum_accepts (RepairRequest.status (set_truthy (dict q) r))"
      if "r \<in> set (repair_requests db)" for r
      using old assms that by (simp add: set_truthy_status split: if_splits)
    then show ?thesis
      using assms updated by (auto simp: PutRequest snd_put_request)
  qed
qed (simp_all add: assms)

lemma run_statuses:
  "\<forall>r \<in> set (repair_requests db). enum_accepts (RepairRequest.status r) \<Longrightarrow>
   \<forall>r \<in> set (repair_requests (run bcrypt calls db)). enum_accepts (RepairRequest.status r)"
proof (induction calls arbitrary: db)
  case Nil
  then show ?case by simp
next
  case (Cons c calls)
  from Cons.prems
  have "\<forall>r \<in> set (repair_requests (step bcrypt c db)). enum_accepts (RepairRequest.status r)"
    by (rule step_statuses)
  then have "\<forall>r \<in> set (repair_requests (run bcrypt calls (step bcrypt c db))).
      enum_accepts (RepairRequest.status r)"
    by (rule Cons.IH)
  then show ?case by simp
qed

lemma invalid_status_rejected: "\<not> enum_accepts (RepairRequestCreate.status invalid_status_laptop)"
  by (simp add: invalid_status_laptop_def enum_accepts_iff status_new_def
        status_in_progress_def status_completed_def)

lemma run_alice:
  "run bcrypt [PostUsers salt alice] empty_database =
     \<lparr>users = [\<lparr>User.id' = 1, User.username = ''alice'',
                User.hashed_password = hash_password bcrypt salt ''secret'',
                User.role = ''admin''\<rparr>],
      repair_requests = []\<rparr>"
  by (simp add: snd_post_users create_user_def Let_def alice_def empty_database_def
        unique_username_def next_id_def)

lemma toy_bcrypt_no_fixed_point: "toy_bcrypt salt pw \<noteq> pw"
proof
  assume "toy_bcrypt salt pw = pw"
  then have "length (toy_bcrypt salt pw) = length pw" by simp
  then show False by (simp add: toy_bcrypt_def)
qed

section \<open>The claims\<close>

text \<open>
  C3 (as amended). For every request id that fits the signed 64-bit integers of the
  database: in every database a run of the service can reach, fetching a repair request
  by id returns the stored row with that id when there is one (the handler returns the
  row, the route its serialisation), and fails with HTTP 404 "Request not found" when no
  row has that id. For an id outside that range the lookup raises \<open>OverflowError\<close> in the
  driver, which is a server error and not a 404. In any database whatever, a record
  that is returned is a stored row with the requested id.
\<close>

theorem read_request_found_or_404:
  "(sqlite_integer request_id \<longrightarrow>
      (\<forall>r \<in> set (repair_requests (run bcrypt calls empty_database)).
         RepairRequest.id' r = request_id \<longrightarrow>
           read_request request_id (run bcrypt calls empty_database) = Inr r
         \<and> get_request request_id (run bcrypt calls empty_database) = Inr (from_orm r))
    \<and> ((\<forall>r \<in> set (repair_requests db). RepairRequest.id' r \<noteq> request_id) \<longrightarrow>
          read_request request_id db = Inl (HTTPException 404 ''Request not found'')
        \<and> get_request request_id db = Inl (HTTPException 404 ''Request not found'')))
   \<and> (\<not> sqlite_integer request_id \<longrightarrow>
        read_request request_id db = Inl OverflowError
      \<and> get_request request_id db = Inl OverflowError)
   \<and> (\<forall>r. read_request request_id db = Inr r \<longrightarrow>
        r \<in> set (repair_requests db) \<and> RepairRequest.id' r = request_id)"
proof (intro conjI ballI allI impI)
  fix r
  assume fits: "sqlite_integer request_id"
    and r: "r \<in> set (repair_requests (run bcrypt calls empty_database))"
    and i: "RepairRequest.id' r = request_id"
  have "first (filter (\<lambda>x. RepairRequest.id' x = RepairRequest.id' r)
                (repair_requests (run bcrypt calls empty_database))) = Some r"
    using reachable_ids_distinct r by (rule first_filter_unique)
  then show "read_request request_id (run bcrypt calls empty_database) = Inr r"
    and "get_request request_id (run bcrypt calls empty_database) = Inr (from_orm r)"
    using fits by (simp_all add: get_request_def read_request_def i)
next
  assume fits: "sqlite_integer request_id"
    and "\<forall>r \<in> set (repair_requests db). RepairRequest.id' r \<noteq> request_id"
  then have "first (filter (\<lambda>r. RepairRequest.id' r = request_id) (repair_requests db)) = None"
    by (simp add: first_filter_None first_def)
  then show "read_request request_id db = Inl (HTTPException 404 ''Request not found'')"
    and "get_request request_id db = Inl (HTTPException 404 ''Request not found'')"
    using fits by (simp_all add: get_request_def read_request_def)
next
  assume "\<not> sqlite_integer request_id"
  then show "read_request request_id db = Inl OverflowError"
    and "get_request request_id db = Inl OverflowError"
    by (simp_all add: get_request_def read_request_def)
next
  fix r
  assume "read_request request_id db = Inr r"
  then have "first (filter (\<lambda>r. RepairRequest.id' r = request_id) (repair_requests db)) = Some r"
    by (simp add: read_request_def split: option.splits if_splits)
  from first_filter_Some [OF this]
  show "r \<in> set (repair_requests db)" and "RepairRequest.id' r = request_id"
    by simp_all
qed

theorem read_request_found_or_404_witness:
  "read_request 1 (run (\<lambda>salt pw. salt @ pw) [PostRequests 1700000000 laptop] empty_database) =
     Inr \<lparr>RepairRequest.id' = 1, RepairRequest.request_date = 1700000000,
          RepairRequest.equipment_type = ''laptop'', RepairRequest.model = ''X1'',
          RepairRequest.problem_description = ''screen cracked'',
          RepairRequest.client_name = ''A. Ivanov'',
          RepairRequest.phone_number = ''555-0100'',
          RepairRequest.status = status_new, RepairRequest.master_id = None\<rparr>
   \<and> read_request 2 (run (\<lambda>salt pw. salt @ pw) [PostRequests 1700000000 laptop] empty_database) =
     Inl (HTTPException 404 ''Request not found'')
   \<and> read_request (2 ^ 63) empty_database = Inl OverflowError"
proof -
  let ?db = "run (\<lambda>salt pw. salt @ pw) [PostRequests 1700000000 laptop] empty_database"
  let ?r = "\<lparr>RepairRequest.id' = 1, RepairRequest.request_date = 1700000000,
          RepairRequest.equipment_type = ''laptop'', RepairRequest.model = ''X1'',
          RepairRequest.problem_description = ''screen cracked'',
          RepairRequest.client_name = ''A. Ivanov'',
          RepairRequest.phone_number = ''555-0100'',
          RepairRequest.status = status_new, RepairRequest.master_id = None\<rparr>"
  have rows: "repair_requests ?db = [?r]"
    by (subst run_laptop) simp
  have stored: "?r \<in> set (repair_requests ?db)" and id1: "RepairRequest.id' ?r = 1"
    unfolding rows by simp_all
  have absent: "\<forall>r \<in> set (repair_requests ?db). RepairRequest.id' r \<noteq> 2"
    unfolding rows by simp
  have fits: "sqlite_integer 1" "sqlite_integer 2" and large: "\<not> sqlite_integer (2 ^ 63)"
    by (simp_all add: sqlite_integer_def)
  from read_request_found_or_404 [of 1 "\<lambda>salt pw. salt @ pw" "[PostRequests 1700000000 laptop]" ?db]
    stored id1 fits(1)
  have found: "read_request 1 ?db = Inr ?r" by blast
  from read_request_found_or_404 [of 2 "\<lambda>salt pw. salt @ pw" "[PostRequests 1700000000 laptop]" ?db]
    absent fits(2)
  have missing: "read_request 2 ?db = Inl (HTTPException 404 ''Request not found'')" by blast
  from read_request_found_or_404 [of "2 ^ 63" "\<lambda>salt pw. salt @ pw" "[]" empty_database] large
  have "read_request (2 ^ 63) empty_database = Inl OverflowError" by blast
  with found missing show ?thesis by (intro conjI)
qed

text \<open>The claim as stated, for every request id, fails at the id \<open>2^63\<close> on the empty
  database: no row matches, and the answer is not the 404.\<close>

theorem read_request_404_counterexample:
  "repair_requests empty_database = []
   \<and> read_request 9223372036854775808 empty_database = Inl OverflowError
   \<and> read_request 9223372036854775808 empty_database
       \<noteq> Inl (HTTPException 404 ''Request not found'')"
  by (simp add: read_request_def sqlite_integer_def empty_database_def)

text \<open>
  C1. Updating an existing repair request changes a stored field only when the payload's
  value for it is truthy: whatever the outcome of the call, the row then stored under
  the id keeps its id and request date, and keeps every field whose supplied value is
  falsy (an empty string; for \<open>master_id\<close>, \<open>None\<close> or 0). When the update succeeds, the
  returned row is the stored one and every field with a truthy supplied value holds that
  value. The only failures for an existing id are the storage layer refusing the new
  status and the driver refusing an integer beyond 64 bits, and then the database is as
  before.
\<close>

theorem update_request_overwrites_only_truthy:
  assumes "first (filter (\<lambda>r. RepairRequest.id' r = request_id) (repair_requests db)) = Some old"
    and "update_request request_id request db = (res, db')"
  shows "\<exists>new. first (filter (\<lambda>r. RepairRequest.id' r = request_id) (repair_requests db')) = Some new
     \<and> (res = Inr new
        \<or> (res = Inl IntegrityError \<or> res = Inl OverflowError) \<and> db' = db \<and> new = old)
     \<and> RepairRequest.id' new = RepairRequest.id' old
     \<and> RepairRequest.request_date new = RepairRequest.request_date old
     \<and> (\<not> truthy (PyStr (RepairRequestCreate.equipment_type request)) \<longrightarrow>
          RepairRequest.equipment_type new = RepairRequest.equipment_type old)
     \<and> (\<not> truthy (PyStr (RepairRequestCreate.model request)) \<longrightarrow>
          RepairRequest.model new = RepairRequest.model old)
     \<and> (\<not> truthy (PyStr (RepairRequestCreate.problem_description request)) \<longrightarrow>
          RepairRequest.problem_description new = RepairRequest.problem_description old)
     \<and> (\<not> truthy (PyStr (RepairRequestCreate.client_name request)) \<longrightarrow>
          RepairRequest.client_name new = RepairRequest.client_name old)
     \<and> (\<not> truthy (PyStr (RepairRequestCreate.phone_number request)) \<longrightarrow>
          RepairRequest.phone_number new = RepairRequest.phone_number old)
     \<and> (\<not> truthy (PyStr (RepairRequestCreate.status request)) \<longrightarrow>
          RepairRequest.status new = RepairRequest.status old)
     \<and> (\<not> truthy (case RepairRequestCreate.master_id request of
                       None \<Rightarrow> PyNone | Some m \<Rightarrow> PyInt m) \<longrightarrow>
          RepairRequest.master_id new = RepairRequest.master_id old)
     \<and> (res = Inr new \<longrightarrow>
          (truthy (PyStr (RepairRequestCreate.equipment_type request)) \<longrightarrow>
            RepairRequest.equipment_type new = RepairRequestCreate.equipment_type request)
        \<and> (truthy (PyStr (RepairRequestCreate.model request)) \<longrightarrow>
            RepairRequest.model new = RepairRequestCreate.model request)
        \<and> (truthy (PyStr (RepairRequestCreate.problem_description request)) \<longrightarrow>
            RepairRequest.problem_description new =
              RepairRequestCreate.problem_description request)
        \<and> (truthy (PyStr (RepairRequestCreate.client_name request)) \<longrightarrow>
            RepairRequest.client_name new = RepairRequestCreate.client_name request)
        \<and> (truthy (PyStr (RepairRequestCreate.phone_number request)) \<longrightarrow>
            RepairRequest.phone_number new = RepairRequestCreate.phone_number request)
        \<and> (truthy (PyStr (RepairRequestCreate.status request)) \<longrightarrow>
            RepairRequest.status new = RepairRequestCreate.status request)
        \<and> (truthy (case RepairRequestCreate.master_id request of
                       None \<Rightarrow> PyNone | Some m \<Rightarrow> PyInt m) \<longrightarrow>
            RepairRequest.master_id new = RepairRequestCreate.master_id request))"
proof (cases "sqlite_integer request_id
    \<and> enum_accepts (RepairRequest.status (set_truthy (dict request) old))
    \<and> \<not> master_overflows request")
  case True
  let ?f = "\<lambda>r. if RepairRequest.id' r = request_id then set_truthy (dict request) r else r"
  let ?new = "set_truthy (dict request) old"
  from True have fits: "sqlite_integer request_id" by simp
  have old_id: "RepairRequest.id' old = request_id"
    using first_filter_Some [OF assms(1)] by simp
  from assms(2) True have res: "res = Inr ?new"
    and db': "db' = db\<lparr>repair_requests := map ?f (repair_requests db)\<rparr>"
    by (simp_all add: update_request_found [OF assms(1) fits])
  have "first (filter (\<lambda>r. RepairRequest.id' r = request_id) (map ?f (repair_requests db))) =
          map_option ?f (first (filter (\<lambda>r. RepairRequest.id' r = request_id) (repair_requests db)))"
    by (rule first_filter_map) (simp add: set_truthy_id)
  then have new: "first (filter (\<lambda>r. RepairRequest.id' r = request_id) (repair_requests db')) =
      Some ?new"
    by (simp add: db' assms(1) old_id)
  show ?thesis
  proof (intro exI [of _ ?new] conjI)
    show "first (filter (\<lambda>r. RepairRequest.id' r = request_id) (repair_requests db')) = Some ?new"
      by (rule new)
    show "res = Inr ?new
        \<or> (res = Inl IntegrityError \<or> res = Inl OverflowError) \<and> db' = db \<and> ?new = old"
      by (simp add: res)
  qed (simp_all add: set_truthy_fields split: option.split)
next
  case False
  have failed: "(res = Inl IntegrityError \<or> res = Inl OverflowError) \<and> db' = db"
  proof (cases "sqlite_integer request_id")
    case no_fit: False
    with assms(2) show ?thesis by (simp add: update_request_overflow_id)
  next
    case fits: True
    with False assms(2) show ?thesis
      by (auto simp: update_request_found [OF assms(1) fits] split: if_splits)
  qed
  then have not_ok: "res \<noteq> Inr old" and db': "db' = db" by auto
  show ?thesis
  proof (intro exI [of _ old] conjI)
    show "first (filter (\<lambda>r. RepairRequest.id' r = request_id) (repair_requests db')) = Some old"
      by (simp add: db' assms(1))
    show "res = Inr old
        \<or> (res = Inl IntegrityError \<or> res = Inl OverflowError) \<and> db' = db \<and> old = old"
      using failed by simp
  qed (simp_all add: not_ok)
qed

theorem update_request_overwrites_only_truthy_witness:
  "\<exists>new. first (filter (\<lambda>r. RepairRequest.id' r = 1)
            (repair_requests (snd (update_request 1 all_falsy
               (run (\<lambda>salt pw. salt @ pw) [PostRequests 1700000000 laptop] empty_database))))) =
          Some new
       \<and> RepairRequest.problem_description new = ''screen cracked''"
proof -
  let ?db = "run (\<lambda>salt pw. salt @ pw) [PostRequests 1700000000 laptop] empty_database"
  let ?old = "\<lparr>RepairRequest.id' = 1, RepairRequest.request_date = 1700000000,
          RepairRequest.equipment_type = ''laptop'', RepairRequest.model = ''X1'',
          RepairRequest.problem_description = ''screen cracked'',
          RepairRequest.client_name = ''A. Ivanov'',
          RepairRequest.phone_number = ''555-0100'',
          RepairRequest.status = status_new, RepairRequest.master_id = None\<rparr>"
  have rows: "repair_requests ?db = [?old]"
    by (subst run_laptop) simp
  have stored: "first (filter (\<lambda>r. RepairRequest.id' r = 1) (repair_requests ?db)) = Some ?old"
    unfolding rows by (simp add: first_def)
  have call: "update_request 1 all_falsy ?db =
      (fst (update_request 1 all_falsy ?db), snd (update_request 1 all_falsy ?db))"
    by simp
  have falsy: "\<not> truthy (PyStr (RepairRequestCreate.problem_description all_falsy))"
    by (simp add: all_falsy_def)
  from update_request_overwrites_only_truthy [OF stored call] falsy
  obtain new where
    "first (filter (\<lambda>r. RepairRequest.id' r = 1)
       (repair_requests (snd (update_request 1 all_falsy ?db)))) = Some new"
    "RepairRequest.problem_description new = RepairRequest.problem_description ?old"
    by blast
  then show ?thesis by simp
qed

text \<open>
  C10. A repair request that has a master keeps one: along any run of the service from
  any database, the row stays at its position with its id and its \<open>master_id\<close> stays
  non-null, whatever payloads the updates carry. A payload whose \<open>master_id\<close> is absent or
  null supplies \<open>None\<close>, which the update loop skips, so such an update leaves the
  \<open>master_id\<close> of every row as it was.
\<close>

theorem master_id_never_unassigned:
  "(i < length (repair_requests db)
      \<and> RepairRequest.master_id (repair_requests db ! i) \<noteq> None \<longrightarrow>
        i < length (repair_requests (run bcrypt calls db))
      \<and> RepairRequest.id' (repair_requests (run bcrypt calls db) ! i) =
          RepairRequest.id' (repair_requests db ! i)
      \<and> RepairRequest.master_id (repair_requests (run bcrypt calls db) ! i) \<noteq> None)
   \<and> (RepairRequestCreate.master_id request = None \<longrightarrow>
        map RepairRequest.master_id
          (repair_requests (snd (update_request request_id request db))) =
        map RepairRequest.master_id (repair_requests db))"
proof (intro conjI impI)
  assume m: "RepairRequestCreate.master_id request = None"
  have "map RepairRequest.master_id
          (map (\<lambda>r. if RepairRequest.id' r = request_id then set_truthy (dict request) r else r)
               (repair_requests db)) =
        map RepairRequest.master_id (repair_requests db)"
    by (simp add: o_def set_truthy_master_id m cong: map_cong)
  with update_request_rows [of request_id request db]
  show "map RepairRequest.master_id
          (repair_requests (snd (update_request request_id request db))) =
        map RepairRequest.master_id (repair_requests db)"
    by auto
qed (simp_all add: run_keeps_master)

theorem master_id_never_unassigned_witness:
  "RepairRequest.master_id
     (repair_requests
        (run (\<lambda>salt pw. salt @ pw) [PutRequest 1 all_falsy]
           (run (\<lambda>salt pw. salt @ pw) [PostRequests 1700000000 assigned_laptop] empty_database))
      ! 0) \<noteq> None"
proof -
  let ?db = "run (\<lambda>salt pw. salt @ pw) [PostRequests 1700000000 assigned_laptop] empty_database"
  have rows: "repair_requests ?db =
        [\<lparr>RepairRequest.id' = 1, RepairRequest.request_date = 1700000000,
          RepairRequest.equipment_type = ''laptop'', RepairRequest.model = ''X1'',
          RepairRequest.problem_description = ''screen cracked'',
          RepairRequest.client_name = ''A. Ivanov'',
          RepairRequest.phone_number = ''555-0100'',
          RepairRequest.status = status_new, RepairRequest.master_id = Some 7\<rparr>]"
    by (subst run_assigned_laptop) simp
  have "0 < length (repair_requests ?db)"
    and "RepairRequest.master_id (repair_requests ?db ! 0) \<noteq> None"
    unfolding rows by simp_all
  with master_id_never_unassigned [of 0 ?db "\<lambda>salt pw. salt @ pw" "[PutRequest 1 all_falsy]"]
  show ?thesis by blast
qed

text \<open>
  C4. For every database the statistics handler returns as \<open>completed_requests_count\<close> the
  number of rows of \<open>repair_requests\<close> whose status is the "completed" member of the enum,
  and as \<open>average_time\<close> the fixed placeholder string. Creating requests with payloads
  the storage layer stores raises the count by the number of them whose status is
  "completed"; so after creating, in any order and with any other field values that can
  be stored, five requests of which three are "completed" and two "new" in an empty
  database, the count is 3.
\<close>

theorem get_statistics_counts_completed:
  "completed_requests_count (get_statistics db) =
     int (length (filter (\<lambda>r. RepairRequest.status r = status_completed) (repair_requests db)))
   \<and> average_time (get_statistics db) = average_time_placeholder
   \<and> ((\<forall>q \<in> snd ` set tqs. valid_payload q) \<longrightarrow>
        completed_requests_count
          (get_statistics (run bcrypt (map (\<lambda>(t, q). PostRequests t q) tqs) db)) =
        completed_requests_count (get_statistics db)
          + int (length (filter (\<lambda>(t, q). RepairRequestCreate.status q = status_completed) tqs)))
   \<and> (length (filter (\<lambda>(t, q). RepairRequestCreate.status q = status_completed) tqs) = 3
        \<and> length (filter (\<lambda>(t, q). RepairRequestCreate.status q = status_new) tqs) = 2
        \<and> length tqs = 5
        \<and> (\<forall>q \<in> snd ` set tqs. bindable (RepairRequestCreate.master_id q)) \<longrightarrow>
        completed_requests_count
          (get_statistics (run bcrypt (map (\<lambda>(t, q). PostRequests t q) tqs) empty_database)) = 3)"
proof -
  have count: "completed_requests_count (get_statistics d) =
      int (length (filter (\<lambda>r. RepairRequest.status r = status_completed) (repair_requests d)))"
    for d
    by (simp add: get_statistics_def Let_def)
  have grows: "completed_requests_count
          (get_statistics (run bcrypt (map (\<lambda>(t, q). PostRequests t q) tqs) d)) =
        completed_requests_count (get_statistics d)
          + int (length (filter (\<lambda>(t, q). RepairRequestCreate.status q = status_completed) tqs))"
    if "\<forall>q \<in> snd ` set tqs. valid_payload q" for d
  proof -
    have "length (filter (\<lambda>x. x = status_completed)
            (map (\<lambda>(t, q). RepairRequestCreate.status q) tqs)) =
          length (filter (\<lambda>(t, q). RepairRequestCreate.status q = status_completed) tqs)"
      by (induction tqs) auto
    then show ?thesis
      by (simp add: count count_completed_map run_post_requests_statuses [OF that])
  qed
  have five: "completed_requests_count
          (get_statistics (run bcrypt (map (\<lambda>(t, q). PostRequests t q) tqs) empty_database)) = 3"
    if c: "length (filter (\<lambda>(t, q). RepairRequestCreate.status q = status_completed) tqs) = 3"
      and n: "length (filter (\<lambda>(t, q). RepairRequestCreate.status q = status_new) tqs) = 2"
      and l: "length tqs = 5"
      and b: "\<forall>q \<in> snd ` set tqs. bindable (RepairRequestCreate.master_id q)"
  proof -
    have "length (filter (\<lambda>(t, q). RepairRequestCreate.status q = status_completed) tqs)
        + length (filter (\<lambda>(t, q). RepairRequestCreate.status q = status_new) tqs)
        + length (filter (\<lambda>(t, q). RepairRequestCreate.status q \<noteq> status_completed
              \<and> RepairRequestCreate.status q \<noteq> status_new) tqs) = length tqs"
      using status_enum_distinct(1) by (induction tqs) auto
    with c n l have "filter (\<lambda>(t, q). RepairRequestCreate.status q \<noteq> status_completed
              \<and> RepairRequestCreate.status q \<noteq> status_new) tqs = []"
      by simp
    then have "\<forall>q \<in> snd ` set tqs. enum_accepts (RepairRequestCreate.status q)"
      by (auto simp: filter_empty_conv enum_accepts_iff)
    with b have "\<forall>q \<in> snd ` set tqs. valid_payload q"
      by (simp add: valid_payload_def)
    from grows [OF this, of empty_database] c show ?thesis
      by (simp add: count empty_database_def)
  qed
  show ?thesis
    using count [of db] grows [of db] five
    by (simp add: get_statistics_def Let_def)
qed

theorem get_statistics_counts_completed_witness:
  "completed_requests_count
     (get_statistics
        (run (\<lambda>salt pw. salt @ pw) (map (\<lambda>(t, q). PostRequests t q) five_requests)
           empty_database)) = 3
   \<and> average_time
     (get_statistics
        (run (\<lambda>salt pw. salt @ pw) (map (\<lambda>(t, q). PostRequests t q) five_requests)
           empty_database)) = average_time_placeholder"
proof -
  have c: "length (filter (\<lambda>(t, q). RepairRequestCreate.status q = status_completed)
             five_requests) = 3"
    and n: "length (filter (\<lambda>(t, q). RepairRequestCreate.status q = status_new)
             five_requests) = 2"
    by (simp_all add: filter_status_map five_requests_statuses status_enum_distinct
          status_enum_distinct(1) [symmetric])
  have l: "length five_requests = 5"
    by (simp add: five_requests_def)
  have b: "\<forall>q \<in> snd ` set five_requests. bindable (RepairRequestCreate.master_id q)"
    by (simp add: five_requests_def completed_laptop_def laptop_def bindable_def)
  from get_statistics_counts_completed [of empty_database five_requests "\<lambda>salt pw. salt @ pw"]
    c n l b
  have "completed_requests_count
     (get_statistics
        (run (\<lambda>salt pw. salt @ pw) (map (\<lambda>(t, q). PostRequests t q) five_requests)
           empty_database)) = 3"
    by blast
  moreover
  from get_statistics_counts_completed
    [of "run (\<lambda>salt pw. salt @ pw) (map (\<lambda>(t, q). PostRequests t q) five_requests) empty_database"
        "[]" "\<lambda>salt pw. salt @ pw"]
  have "average_time
     (get_statistics
        (run (\<lambda>salt pw. salt @ pw) (map (\<lambda>(t, q). PostRequests t q) five_requests)
           empty_database)) = average_time_placeholder"
    by blast
  ultimately show ?thesis by (rule conjI)
qed

text \<open>
  C5 (as amended). For \<open>skip\<close> and \<open>limit\<close> that are non-negative and fit the signed 64-bit
  integers of the database, the list handler returns the rows of \<open>repair_requests\<close> in
  table order with the first \<open>skip\<close> rows left out and at most \<open>limit\<close> rows kept, and
  the route returns their serialisations. The table order is the insertion order: after
  creating requests in an empty database, the payload fields of the rows are the created
  payloads in the order of their creation. With five rows, \<open>limit=2\<close> gives two records,
  and \<open>skip=3, limit=10\<close> gives the last two. The number of records is
  \<open>min limit (max 0 (n - skip))\<close> for \<open>n\<close> rows, so a \<open>skip\<close> or \<open>limit\<close> beyond the table
  gives fewer or no records. Within the 64-bit range the route never returns an error;
  for a \<open>skip\<close> or \<open>limit\<close> outside it the query raises \<open>OverflowError\<close> in the driver.
\<close>

theorem read_requests_skip_limit:
  "(0 \<le> skip \<and> 0 \<le> lim \<and> sqlite_integer skip \<and> sqlite_integer lim \<longrightarrow>
      read_requests skip lim db = Inr (take (nat lim) (drop (nat skip) (repair_requests db)))
    \<and> get_requests skip lim db =
        Inr (map from_orm (take (nat lim) (drop (nat skip) (repair_requests db))))
    \<and> int (length (take (nat lim) (drop (nat skip) (repair_requests db)))) =
        min lim (max 0 (int (length (repair_requests db)) - skip)))
   \<and> ((\<forall>q \<in> snd ` set tqs. valid_payload q) \<longrightarrow>
        map (\<lambda>r. RepairRequestCreate.truncate (from_orm r))
          (repair_requests (run bcrypt (map (\<lambda>(t, q). PostRequests t q) tqs) empty_database)) =
        map snd tqs)
   \<and> (length (repair_requests db) = 5 \<longrightarrow>
        (\<exists>rows. read_requests 0 2 db = Inr rows \<and> length rows = 2)
      \<and> read_requests 3 10 db = Inr (drop 3 (repair_requests db))
      \<and> length (drop 3 (repair_requests db)) = 2)
   \<and> (sqlite_integer skip \<and> sqlite_integer lim \<longrightarrow>
        (\<exists>rows. read_requests skip lim db = Inr rows)
      \<and> (\<exists>rs. get_requests skip lim db = Inr rs))
   \<and> (\<not> (sqlite_integer skip \<and> sqlite_integer lim) \<longrightarrow>
        read_requests skip lim db = Inl OverflowError
      \<and> get_requests skip lim db = Inl OverflowError)"
proof (intro conjI impI)
  assume "\<forall>q \<in> snd ` set tqs. valid_payload q"
  from run_post_requests [OF this, of bcrypt empty_database]
  show "map (\<lambda>r. RepairRequestCreate.truncate (from_orm r))
          (repair_requests (run bcrypt (map (\<lambda>(t, q). PostRequests t q) tqs) empty_database)) =
        map snd tqs"
    by (simp add: empty_database_def)
qed (auto simp: read_requests_def get_requests_def limit_def offset_def sqlite_integer_def)

theorem read_requests_skip_limit_witness:
  "(\<exists>rows. read_requests 0 2
        (run (\<lambda>salt pw. salt @ pw) (map (\<lambda>(t, q). PostRequests t q) five_requests)
           empty_database) = Inr rows
      \<and> length rows = 2)
   \<and> (\<exists>rows. read_requests 3 10
        (run (\<lambda>salt pw. salt @ pw) (map (\<lambda>(t, q). PostRequests t q) five_requests)
           empty_database) = Inr rows
      \<and> map (\<lambda>r. RepairRequestCreate.truncate (from_orm r)) rows = [laptop, completed_laptop])
   \<and> get_requests (2 ^ 63) 10 empty_database = Inl OverflowError"
proof -
  let ?db = "run (\<lambda>salt pw. salt @ pw) (map (\<lambda>(t, q). PostRequests t q) five_requests)
               empty_database"
  have ok: "\<forall>q \<in> snd ` set five_requests. valid_payload q"
    by (simp add: five_requests_def completed_laptop_def laptop_def enum_accepts_iff
          valid_payload_def bindable_def)
  note inst = read_requests_skip_limit [of 3 10 ?db five_requests "\<lambda>salt pw. salt @ pw"]
  from inst ok have rows: "map (\<lambda>r. RepairRequestCreate.truncate (from_orm r)) (repair_requests ?db) =
      map snd five_requests"
    by blast
  then have "length (map (\<lambda>r. RepairRequestCreate.truncate (from_orm r)) (repair_requests ?db)) = 5"
    by (simp only: five_requests_def) simp
  then have five: "length (repair_requests ?db) = 5"
    by (simp only: length_map)
  from inst five have two: "\<exists>rows. read_requests 0 2 ?db = Inr rows \<and> length rows = 2"
    and last2: "read_requests 3 10 ?db = Inr (drop 3 (repair_requests ?db))"
    by blast+
  have "map (\<lambda>r. RepairRequestCreate.truncate (from_orm r)) (drop 3 (repair_requests ?db)) =
      drop 3 (map snd five_requests)"
    by (simp only: drop_map [symmetric] rows)
  also have "\<dots> = [laptop, completed_laptop]"
    by (simp add: five_requests_def)
  finally have three: "\<exists>rows. read_requests 3 10 ?db = Inr rows
      \<and> map (\<lambda>r. RepairRequestCreate.truncate (from_orm r)) rows = [laptop, completed_laptop]"
    using last2 by simp
  have large: "\<not> (sqlite_integer (2 ^ 63) \<and> sqlite_integer 10)"
    by (simp add: sqlite_integer_def)
  from read_requests_skip_limit [of "2 ^ 63" 10 empty_database "[]" "\<lambda>salt pw. salt @ pw"] large
  have "get_requests (2 ^ 63) 10 empty_database = Inl OverflowError"
    by blast
  with two three show ?thesis by (intro conjI)
qed

text \<open>The claim as stated, for every non-negative \<open>skip\<close> and \<open>limit\<close>, fails at
  \<open>skip = 2^63\<close>: the route returns an error.\<close>

theorem read_requests_never_error_counterexample:
  "(0 :: int) \<le> 9223372036854775808 \<and> (0 :: int) \<le> 10
   \<and> read_requests 9223372036854775808 10 empty_database = Inl OverflowError
   \<and> get_requests 9223372036854775808 10 empty_database = Inl OverflowError"
  by (simp add: get_requests_def read_requests_def sqlite_integer_def)

text \<open>
  C6. Creating a repair request with a valid payload succeeds, and fetching the id of the
  response in the database after the creation returns the same record. Its payload
  fields are those of the creation payload, its \<open>request_date\<close> is the time of the
  insert, and its id is the generated one, which no earlier row has. A payload is valid
  when the storage layer stores it: its status is accepted and its \<open>master_id\<close>, when
  given, fits the 64-bit integers of the database. The table is assumed to have an
  identifier left (fewer than \<open>2^63 - 1\<close> rows), so that the generated id can be looked
  up.
\<close>

theorem create_then_fetch:
  assumes "valid_payload request"
    and "sqlite_integer (next_id (map RepairRequest.id' (repair_requests db)))"
  shows "\<exists>resp db'. post_requests utcnow request db = (Inr resp, db')
     \<and> get_request (RepairRequestResponse.id' resp) db' = Inr resp
     \<and> RepairRequestCreate.truncate resp = request
     \<and> RepairRequestResponse.request_date resp = utcnow
     \<and> RepairRequestResponse.id' resp = next_id (map RepairRequest.id' (repair_requests db))
     \<and> RepairRequestResponse.id' resp \<notin> set (map RepairRequest.id' (repair_requests db))"
proof -
  from create_request_stored [OF assms(1), of utcnow db] obtain r where
    created: "create_request utcnow request db =
        (Inr r, db\<lparr>repair_requests := repair_requests db @ [r]\<rparr>)"
    and new_id: "RepairRequest.id' r = next_id (map RepairRequest.id' (repair_requests db))"
    and resp: "from_orm r = RepairRequestCreate.extend request
        \<lparr>RepairRequestResponse.id' = RepairRequest.id' r,
         RepairRequestResponse.request_date = utcnow\<rparr>"
    by blast
  let ?db' = "db\<lparr>repair_requests := repair_requests db @ [r]\<rparr>"
  have resp_id: "RepairRequestResponse.id' (from_orm r) = RepairRequest.id' r"
    and resp_date: "RepairRequestResponse.request_date (from_orm r) = utcnow"
    by (simp_all add: resp RepairRequestCreate.extend_def)
  have fits: "sqlite_integer (RepairRequest.id' r)"
    using assms(2) by (simp add: new_id)
  have fresh: "RepairRequest.id' r \<notin> set (map RepairRequest.id' (repair_requests db))"
    using next_id_fresh [of "map RepairRequest.id' (repair_requests db)"] by (simp add: new_id)
  then have "\<forall>x \<in> set (repair_requests db). \<not> RepairRequest.id' x = RepairRequest.id' r"
    by (metis imageI set_map)
  then have "first (filter (\<lambda>x. RepairRequest.id' x = RepairRequest.id' r)
                (repair_requests db @ [r])) = Some r"
    by (rule first_filter_append_fresh) simp
  then have fetched: "get_request (RepairRequestResponse.id' (from_orm r)) ?db' = Inr (from_orm r)"
    using fits by (simp add: get_request_def read_request_def resp_id)
  have posted: "post_requests utcnow request db = (Inr (from_orm r), ?db')"
    by (simp add: post_requests_def created)
  have payload: "RepairRequestCreate.truncate (from_orm r) = request"
    by (simp add: resp truncate_extend)
  show ?thesis
    using posted fetched payload resp_date fresh new_id
    by (intro exI [of _ "from_orm r"] exI [of _ ?db']) (simp add: resp_id)
qed

theorem create_then_fetch_witness:
  "\<exists>resp db'. post_requests 1700000000 laptop empty_database = (Inr resp, db')
     \<and> get_request (RepairRequestResponse.id' resp) db' = Inr resp
     \<and> RepairRequestCreate.truncate resp = laptop
     \<and> RepairRequestResponse.request_date resp = 1700000000
     \<and> RepairRequestResponse.id' resp = 1"
proof -
  have ok: "valid_payload laptop"
    by (simp add: laptop_def enum_accepts_iff valid_payload_def bindable_def)
  have one: "next_id (map RepairRequest.id' (repair_requests empty_database)) = 1"
    by (simp add: empty_database_def next_id_def)
  have fits: "sqlite_integer (next_id (map RepairRequest.id' (repair_requests empty_database)))"
    by (simp add: one sqlite_integer_def)
  from create_then_fetch [OF ok fits, of 1700000000]
  show ?thesis unfolding one by blast
qed

text \<open>
  C8. In every database a run of the service can reach, the status of every stored
  repair request is one of the three members of the enum. Neither handler checks the
  status: a creation whose status is outside the enum, and an update of an existing
  request with a non-empty status outside the enum, reach the storage layer, fail there
  with its error (not with a client error raised by the handler), and leave the database
  as it was. An update with such a status fails and changes nothing for every request
  id, whether the id is stored, absent or beyond the integers of the database.
\<close>

theorem status_always_in_enum:
  "(\<forall>r \<in> set (repair_requests (run bcrypt calls empty_database)).
      RepairRequest.status r \<in> {status_new, status_in_progress, status_completed})
   \<and> (RepairRequestCreate.status request \<notin> {status_new, status_in_progress, status_completed} \<longrightarrow>
        create_request utcnow request db = (Inl IntegrityError, db)
      \<and> (RepairRequestCreate.status request \<noteq> []
          \<and> sqlite_integer request_id
          \<and> (\<exists>r \<in> set (repair_requests db). RepairRequest.id' r = request_id) \<longrightarrow>
            update_request request_id request db = (Inl IntegrityError, db))
      \<and> (RepairRequestCreate.status request \<noteq> [] \<longrightarrow>
            isl (fst (update_request request_id request db))
          \<and> snd (update_request request_id request db) = db))"
proof (intro conjI impI ballI)
  fix r
  assume "r \<in> set (repair_requests (run bcrypt calls empty_database))"
  moreover have "\<forall>r \<in> set (repair_requests (run bcrypt calls empty_database)).
      enum_accepts (RepairRequest.status r)"
    by (rule run_statuses) (simp add: empty_database_def)
  ultimately have "enum_accepts (RepairRequest.status r)" by blast
  then show "RepairRequest.status r \<in> {status_new, status_in_progress, status_completed}"
    by (auto simp: enum_accepts_iff)
next
  assume "RepairRequestCreate.status request \<notin> {status_new, status_in_progress, status_completed}"
  then have "\<not> enum_accepts (RepairRequestCreate.status request)"
    by (auto simp: enum_accepts_iff)
  then show "create_request utcnow request db = (Inl IntegrityError, db)"
    by (rule create_request_rejected)
next
  assume bad: "RepairRequestCreate.status request \<notin> {status_new, status_in_progress, status_completed}"
    and "RepairRequestCreate.status request \<noteq> []
          \<and> sqlite_integer request_id
          \<and> (\<exists>r \<in> set (repair_requests db). RepairRequest.id' r = request_id)"
  then have truthy: "RepairRequestCreate.status request \<noteq> []"
    and fits: "sqlite_integer request_id"
    and "\<not> (\<forall>r \<in> set (repair_requests db). \<not> RepairRequest.id' r = request_id)"
    by auto
  then have "first (filter (\<lambda>r. RepairRequest.id' r = request_id) (repair_requests db)) \<noteq> None"
    by (simp only: first_filter_None) simp
  then obtain old where
    old: "first (filter (\<lambda>r. RepairRequest.id' r = request_id) (repair_requests db)) = Some old"
    by blast
  have "\<not> enum_accepts (RepairRequest.status (set_truthy (dict request) old))"
    using bad truthy by (auto simp: set_truthy_status enum_accepts_iff)
  then show "update_request request_id request db = (Inl IntegrityError, db)"
    by (simp add: update_request_found [OF old fits])
next
  assume bad: "RepairRequestCreate.status request \<notin> {status_new, status_in_progress, status_completed}"
    and truthy: "RepairRequestCreate.status request \<noteq> []"
  have "isl (fst (update_request request_id request db))
      \<and> snd (update_request request_id request db) = db"
  proof (cases "sqlite_integer request_id")
    case False
    then show ?thesis by (simp add: update_request_overflow_id)
  next
    case fits: True
    show ?thesis
    proof (cases "first (filter (\<lambda>r. RepairRequest.id' r = request_id) (repair_requests db))")
      case None
      then show ?thesis by (simp add: update_request_def fits)
    next
      case (Some old)
      have "\<not> enum_accepts (RepairRequest.status (set_truthy (dict request) old))"
        using bad truthy by (auto simp: set_truthy_status enum_accepts_iff)
      then show ?thesis by (simp add: update_request_found [OF Some fits])
    qed
  qed
  then show "isl (fst (update_request request_id request db))"
    and "snd (update_request request_id request db) = db"
    by simp_all
qed

theorem status_always_in_enum_witness:
  "RepairRequest.status
     (repair_requests
        (run toy_bcrypt [PostRequests 1700000000 laptop] empty_database) ! 0)
     \<in> {status_new, status_in_progress, status_completed}
   \<and> create_request 1700000001 invalid_status_laptop
        (run toy_bcrypt [PostRequests 1700000000 laptop] empty_database) =
      (Inl IntegrityError, run toy_bcrypt [PostRequests 1700000000 laptop] empty_database)
   \<and> update_request 1 invalid_status_laptop
        (run toy_bcrypt [PostRequests 1700000000 laptop] empty_database) =
      (Inl IntegrityError, run toy_bcrypt [PostRequests 1700000000 laptop] empty_database)"
proof -
  let ?db = "run toy_bcrypt [PostRequests 1700000000 laptop] empty_database"
  let ?r = "\<lparr>RepairRequest.id' = 1, RepairRequest.request_date = 1700000000,
          RepairRequest.equipment_type = ''laptop'', RepairRequest.model = ''X1'',
          RepairRequest.problem_description = ''screen cracked'',
          RepairRequest.client_name = ''A. Ivanov'',
          RepairRequest.phone_number = ''555-0100'',
          RepairRequest.status = status_new, RepairRequest.master_id = None\<rparr>"
  have rows: "repair_requests ?db = [?r]"
    by (subst run_laptop) simp
  have stored: "repair_requests ?db ! 0 \<in> set (repair_requests ?db)"
    and exists: "\<exists>r \<in> set (repair_requests ?db). RepairRequest.id' r = 1"
    unfolding rows by simp_all
  have bad: "RepairRequestCreate.status invalid_status_laptop
      \<notin> {status_new, status_in_progress, status_completed}"
    using invalid_status_rejected by (simp add: enum_accepts_iff)
  have truthy: "RepairRequestCreate.status invalid_status_laptop \<noteq> []"
    by (simp add: invalid_status_laptop_def)
  note inst = status_always_in_enum [of toy_bcrypt "[PostRequests 1700000000 laptop]"
      invalid_status_laptop 1700000001 ?db 1]
  from inst stored have a: "RepairRequest.status (repair_requests ?db ! 0)
      \<in> {status_new, status_in_progress, status_completed}"
    by blast
  from inst bad have b: "create_request 1700000001 invalid_status_laptop ?db =
      (Inl IntegrityError, ?db)"
    by blast
  have fits: "sqlite_integer 1"
    by (simp add: sqlite_integer_def)
  from inst bad truthy fits exists have c: "update_request 1 invalid_status_laptop ?db =
      (Inl IntegrityError, ?db)"
    by blast
  from a b c show ?thesis by (intro conjI)
qed

text \<open>
  C9. After a user-creation call for a username, from any database and whatever calls
  follow, a further creation with that username fails at the storage layer's uniqueness
  check, at the handler and at the route, and leaves the database as it was. In every
  database a run of the service can reach, no two rows of \<open>users\<close> share a username.
\<close>

theorem duplicate_username_rejected:
  "(UserCreate.username user2 = UserCreate.username user1 \<longrightarrow>
      create_user bcrypt salt2 user2 (run bcrypt (PostUsers salt1 user1 # calls) db) =
        (Inl IntegrityError, run bcrypt (PostUsers salt1 user1 # calls) db)
    \<and> post_users bcrypt salt2 user2 (run bcrypt (PostUsers salt1 user1 # calls) db) =
        (Inl IntegrityError, run bcrypt (PostUsers salt1 user1 # calls) db))
   \<and> distinct (map User.username (users (run bcrypt calls empty_database)))"
proof (intro conjI impI)
  assume same: "UserCreate.username user2 = UserCreate.username user1"
  let ?db = "run bcrypt (PostUsers salt1 user1 # calls) db"
  have "UserCreate.username user1
      \<in> set (map User.username (users (step bcrypt (PostUsers salt1 user1) db)))"
    by (simp only: step.simps snd_post_users create_user_username_taken)
  then have "UserCreate.username user1 \<in> set (map User.username (users ?db))"
    by (simp only: run.simps run_usernames_kept)
  then have taken: "\<not> unique_username (users ?db) (UserCreate.username user2)"
    by (simp add: unique_username_def same)
  then show handler: "create_user bcrypt salt2 user2 ?db = (Inl IntegrityError, ?db)"
    by (rule create_user_rejected)
  then show "post_users bcrypt salt2 user2 ?db = (Inl IntegrityError, ?db)"
    by (simp only: post_users_def) simp
next
  show "distinct (map User.username (users (run bcrypt calls empty_database)))"
    by (rule run_usernames_distinct) (simp add: empty_database_def)
qed

theorem duplicate_username_rejected_witness:
  "create_user toy_bcrypt ''pepper'' alice (run toy_bcrypt [PostUsers ''NaCl'' alice] empty_database) =
     (Inl IntegrityError, run toy_bcrypt [PostUsers ''NaCl'' alice] empty_database)
   \<and> length (users (run toy_bcrypt [PostUsers ''NaCl'' alice] empty_database)) = 1"
proof -
  have same: "UserCreate.username alice = UserCreate.username alice" by simp
  from duplicate_username_rejected [of alice alice toy_bcrypt "''pepper''" "''NaCl''" "[]"
      empty_database] same
  have "create_user toy_bcrypt ''pepper'' alice (run toy_bcrypt [PostUsers ''NaCl'' alice] empty_database) =
     (Inl IntegrityError, run toy_bcrypt [PostUsers ''NaCl'' alice] empty_database)"
    by blast
  moreover have "length (users (run toy_bcrypt [PostUsers ''NaCl'' alice] empty_database)) = 1"
    by (subst run_alice) simp
  ultimately show ?thesis by (rule conjI)
qed

text \<open>
  C7. Every row of \<open>users\<close> in a database reached by a run from the empty one was written
  by a user-creation call of that run: its \<open>hashed_password\<close> is the result of
  \<open>hash_password\<close>, that is of bcrypt with the salt of that call, on the password of that
  call, and its username and role are those of the call. If bcrypt never returns the
  password it is given, the stored \<open>hashed_password\<close> is not that plaintext. A successful
  creation appends exactly this row.
\<close>

theorem stored_password_is_hash:
  "(\<forall>u \<in> set (users (run bcrypt calls empty_database)).
      \<exists>salt user. PostUsers salt user \<in> set calls
        \<and> User.username u = UserCreate.username user
        \<and> User.role u = UserCreate.role user
        \<and> User.hashed_password u = hash_password bcrypt salt (UserCreate.password user)
        \<and> User.hashed_password u = bcrypt salt (UserCreate.password user)
        \<and> ((\<forall>s p. bcrypt s p \<noteq> p) \<longrightarrow> User.hashed_password u \<noteq> UserCreate.password user))
   \<and> (\<forall>u db'. create_user bcrypt salt0 user0 db = (Inr u, db') \<longrightarrow>
        db' = db\<lparr>users := users db @ [u]\<rparr>
      \<and> User.hashed_password u = bcrypt salt0 (UserCreate.password user0))"
proof (intro conjI ballI allI impI)
  fix u
  assume "u \<in> set (users (run bcrypt calls empty_database))"
  from run_users_origin [OF this] obtain salt user where
    origin: "PostUsers salt user \<in> set calls"
      "User.username u = UserCreate.username user"
      "User.hashed_password u = hash_password bcrypt salt (UserCreate.password user)"
      "User.role u = UserCreate.role user"
    by (auto simp: empty_database_def)
  then have "PostUsers salt user \<in> set calls
        \<and> User.username u = UserCreate.username user
        \<and> User.role u = UserCreate.role user
        \<and> User.hashed_password u = hash_password bcrypt salt (UserCreate.password user)
        \<and> User.hashed_password u = bcrypt salt (UserCreate.password user)
        \<and> ((\<forall>s p. bcrypt s p \<noteq> p) \<longrightarrow> User.hashed_password u \<noteq> UserCreate.password user)"
    by (simp add: hash_password_def)
  then show "\<exists>salt user. PostUsers salt user \<in> set calls
        \<and> User.username u = UserCreate.username user
        \<and> User.role u = UserCreate.role user
        \<and> User.hashed_password u = hash_password bcrypt salt (UserCreate.password user)
        \<and> User.hashed_password u = bcrypt salt (UserCreate.password user)
        \<and> ((\<forall>s p. bcrypt s p \<noteq> p) \<longrightarrow> User.hashed_password u \<noteq> UserCreate.password user)"
    by blast
next
  fix u db'
  assume created: "create_user bcrypt salt0 user0 db = (Inr u, db')"
  then show "db' = db\<lparr>users := users db @ [u]\<rparr>"
    by (auto simp: create_user_def Let_def split: if_splits)
  from created show "User.hashed_password u = bcrypt salt0 (UserCreate.password user0)"
    by (auto simp: create_user_def Let_def hash_password_def split: if_splits)
qed

theorem stored_password_is_hash_witness:
  "User.hashed_password (users (run toy_bcrypt [PostUsers ''NaCl'' alice] empty_database) ! 0) =
     ''$NaClsecret''
   \<and> User.hashed_password (users (run toy_bcrypt [PostUsers ''NaCl'' alice] empty_database) ! 0)
     \<noteq> ''secret''"
proof -
  let ?db = "run toy_bcrypt [PostUsers ''NaCl'' alice] empty_database"
  let ?u = "users ?db ! 0"
  have rows: "users ?db =
      [\<lparr>User.id' = 1, User.username = ''alice'',
        User.hashed_password = hash_password toy_bcrypt ''NaCl'' ''secret'',
        User.role = ''admin''\<rparr>]"
    by (subst run_alice) simp
  have stored: "?u \<in> set (users ?db)"
    unfolding rows by simp
  have sound: "\<forall>s p. toy_bcrypt s p \<noteq> p"
    by (simp add: toy_bcrypt_no_fixed_point)
  from stored_password_is_hash [of toy_bcrypt "[PostUsers ''NaCl'' alice]"] stored
  obtain salt user where
    call: "PostUsers salt user \<in> set [PostUsers ''NaCl'' alice]"
    and hash: "User.hashed_password ?u = toy_bcrypt salt (UserCreate.password user)"
    and differs: "(\<forall>s p. toy_bcrypt s p \<noteq> p) \<longrightarrow>
        User.hashed_password ?u \<noteq> UserCreate.password user"
    by blast
  from call have "salt = ''NaCl''" and "user = alice" by simp_all
  with hash differs sound show ?thesis
    by (simp add: toy_bcrypt_def alice_def)
qed

text \<open>
  C2. The user-creation route declares the response model \<open>UserCreate\<close> (fields
  \<open>username\<close>, \<open>password\<close>, \<open>role\<close>), but its handler returns the stored \<open>User\<close> row,
  which has \<open>hashed_password\<close> and no \<open>password\<close>. So the route never answers with a
  record of that shape: for every input its result is an error. For the payload
  \<open>alice\<close> on the empty database the row is stored with the hash, and the response
  fails to validate.
\<close>

theorem post_users_response_fails:
  "post_users bcrypt salt alice empty_database =
     (Inl ResponseValidationError,
      \<lparr>users = [\<lparr>User.id' = 1, User.username = ''alice'',
                 User.hashed_password = hash_password bcrypt salt ''secret'',
                 User.role = ''admin''\<rparr>],
       repair_requests = []\<rparr>)
   \<and> isl (fst (post_users bcrypt salt0 user0 db))
   \<and> response_UserCreate u = Inl ResponseValidationError"
proof (intro conjI)
  have none: "response_UserCreate x = Inl ResponseValidationError" for x
    by (simp add: response_UserCreate_def getattr_User_def)
  show "post_users bcrypt salt alice empty_database =
     (Inl ResponseValidationError,
      \<lparr>users = [\<lparr>User.id' = 1, User.username = ''alice'',
                 User.hashed_password = hash_password bcrypt salt ''secret'',
                 User.role = ''admin''\<rparr>],
       repair_requests = []\<rparr>)"
    by (simp add: post_users_def create_user_def Let_def alice_def empty_database_def
          unique_username_def next_id_def response_UserCreate_def getattr_User_def)
  show "response_UserCreate u = Inl ResponseValidationError"
    by (rule none)
  show "isl (fst (post_users bcrypt salt0 user0 db))"
    by (cases "create_user bcrypt salt0 user0 db")
       (simp add: post_users_def none split: sum.split)
qed

end
